theory Spec2Isabelle
  imports Main "HOL-Library.Word" "HOL-Library.Finite_Map"
begin

unbundle bit_operations_syntax

section \<open>Machine types and the probe environment\<close>

type_synonym u8 = "8 word"
type_synonym u16 = "16 word"
type_synonym u32 = "32 word"
type_synonym u64 = "64 word"
type_synonym s32 = "32 word"

text \<open>
  Every handler runs with an ambient context supplied by the kernel: the value of
  \<^verbatim>\<open>bpf_get_current_pid_tgid()\<close>, the value of \<^verbatim>\<open>bpf_ktime_get_ns()\<close>, the return
  register read by \<^verbatim>\<open>PT_REGS_RC(ctx)\<close> (an \<^verbatim>\<open>unsigned long\<close>) and the task name
  written by \<^verbatim>\<open>bpf_get_current_comm\<close>. They are inputs of the model.
\<close>

record probe_ctx =
  cur_pid_tgid :: u64
  ktime_ns :: u64
  regs_rc :: u64
  cur_comm :: string

section \<open>BPF hash tables\<close>

text \<open>
  \<^verbatim>\<open>BPF_HASH(name, key, leaf, size)\<close> declares a kernel hash table holding at most
  \<^verbatim>\<open>size\<close> entries (10240 when the size is not given). The table operations used by
  the handlers are those of the bcc front end:
  \<^item> \<^verbatim>\<open>lookup\<close> returns a pointer to the stored leaf, or NULL;
  \<^item> \<^verbatim>\<open>update\<close> is \<^verbatim>\<open>bpf_map_update_elem\<close> with \<^verbatim>\<open>BPF_ANY\<close>: it replaces the leaf
    of a present key and adds an absent key unless the table is full;
  \<^item> \<^verbatim>\<open>insert\<close> is \<^verbatim>\<open>bpf_map_update_elem\<close> with \<^verbatim>\<open>BPF_NOEXIST\<close>: it adds an absent
    key unless the table is full and leaves a present key as it is;
  \<^item> \<^verbatim>\<open>delete\<close> removes the key when present.
  No handler inspects the status returned by \<^verbatim>\<open>update\<close>, \<^verbatim>\<open>insert\<close> or
  \<^verbatim>\<open>delete\<close>, so a refused operation is a table left unchanged.
\<close>

type_synonym ('k, 'v) bpf_hash = "('k, 'v) fmap"

definition BPF_HASH_DEFAULT_SIZE :: nat where
  "BPF_HASH_DEFAULT_SIZE = 10240"

definition hash_entries :: "('k, 'v) bpf_hash \<Rightarrow> nat" where
  "hash_entries m = fcard (fmdom m)"

definition hash_lookup :: "('k, 'v) bpf_hash \<Rightarrow> 'k \<Rightarrow> 'v option" where
  "hash_lookup m k = fmlookup m k"

definition hash_update :: "nat \<Rightarrow> ('k, 'v) bpf_hash \<Rightarrow> 'k \<Rightarrow> 'v \<Rightarrow> ('k, 'v) bpf_hash" where
  "hash_update cap m k v =
     (if fmlookup m k \<noteq> None then fmupd k v m
      else if hash_entries m < cap then fmupd k v m
      else m)"

definition hash_insert :: "nat \<Rightarrow> ('k, 'v) bpf_hash \<Rightarrow> 'k \<Rightarrow> 'v \<Rightarrow> ('k, 'v) bpf_hash" where
  "hash_insert cap m k v =
     (if fmlookup m k \<noteq> None then m
      else if hash_entries m < cap then fmupd k v m
      else m)"

definition hash_delete :: "('k, 'v) bpf_hash \<Rightarrow> 'k \<Rightarrow> ('k, 'v) bpf_hash" where
  "hash_delete m k = fmdrop k m"

section \<open>The TCP receive path (the nineteen-branch tcp\_v4\_rcv program)\<close>

definition TCP_BRANCH_ENTRY :: u8 where "TCP_BRANCH_ENTRY = 0"
definition TCP_BRANCH_NOT_FOR_HOST :: u8 where "TCP_BRANCH_NOT_FOR_HOST = 1"
definition TCP_BRANCH_NO_SOCKET :: u8 where "TCP_BRANCH_NO_SOCKET = 2"
definition TCP_BRANCH_TIME_WAIT :: u8 where "TCP_BRANCH_TIME_WAIT = 3"
definition TCP_BRANCH_CHECKSUM_ERR :: u8 where "TCP_BRANCH_CHECKSUM_ERR = 4"
definition TCP_BRANCH_LISTEN :: u8 where "TCP_BRANCH_LISTEN = 5"
definition TCP_BRANCH_SOCKET_BUSY :: u8 where "TCP_BRANCH_SOCKET_BUSY = 6"
definition TCP_BRANCH_XFRM_DROP :: u8 where "TCP_BRANCH_XFRM_DROP = 7"
definition TCP_BRANCH_NEW_SYN_RECV :: u8 where "TCP_BRANCH_NEW_SYN_RECV = 8"
definition TCP_BRANCH_PKT_TOO_SMALL :: u8 where "TCP_BRANCH_PKT_TOO_SMALL = 9"
definition TCP_BRANCH_MIN_TTL_DROP :: u8 where "TCP_BRANCH_MIN_TTL_DROP = 10"
definition TCP_BRANCH_SOCKET_FILTER :: u8 where "TCP_BRANCH_SOCKET_FILTER = 11"
definition TCP_BRANCH_DO_RCV_CALL :: u8 where "TCP_BRANCH_DO_RCV_CALL = 12"
definition TCP_BRANCH_MD5_FAIL :: u8 where "TCP_BRANCH_MD5_FAIL = 13"
definition TCP_BRANCH_BACKLOG_ADD :: u8 where "TCP_BRANCH_BACKLOG_ADD = 14"
definition TCP_BRANCH_REQ_STOLEN :: u8 where "TCP_BRANCH_REQ_STOLEN = 15"
definition TCP_BRANCH_LISTEN_DROP :: u8 where "TCP_BRANCH_LISTEN_DROP = 16"
definition TCP_BRANCH_RST_SENT :: u8 where "TCP_BRANCH_RST_SENT = 17"
definition TCP_BRANCH_ESTABLISHED :: u8 where "TCP_BRANCH_ESTABLISHED = 18"

definition SKB_DROP_REASON_NOT_SPECIFIED :: u8 where "SKB_DROP_REASON_NOT_SPECIFIED = 2"
definition SKB_DROP_REASON_NO_SOCKET :: u8 where "SKB_DROP_REASON_NO_SOCKET = 3"
definition SKB_DROP_REASON_PKT_TOO_SMALL :: u8 where "SKB_DROP_REASON_PKT_TOO_SMALL = 4"
definition SKB_DROP_REASON_TCP_CSUM :: u8 where "SKB_DROP_REASON_TCP_CSUM = 5"
definition SKB_DROP_REASON_SOCKET_FILTER :: u8 where "SKB_DROP_REASON_SOCKET_FILTER = 6"
definition SKB_DROP_REASON_XFRM_POLICY :: u8 where "SKB_DROP_REASON_XFRM_POLICY = 14"
definition SKB_DROP_REASON_TCP_MINTTL :: u8 where "SKB_DROP_REASON_TCP_MINTTL = 70"

record tcp_branch_event =
  pid :: u32
  tgid :: u32
  ts_uptime_us :: u64
  branch_type :: u8
  drop_reason :: u8
  saddr :: u32
  daddr :: u32
  sport :: u16
  dport :: u16
  comm :: string

text \<open>The header fields \<^verbatim>\<open>bpf_probe_read\<close> copies out of the packet at the entry.\<close>

record skb_headers =
  ip_saddr :: u32
  ip_daddr :: u32
  tcp_source :: u16
  tcp_dest :: u16

text \<open>
  Every handler starts from \<^verbatim>\<open>tcp_branch_event_t event = {}\<close> and then stores the
  thread, the process, the time in microseconds and the task name; \<open>branch_event\<close> is
  that common prefix. A field the handler does not assign keeps the zero of the
  initialiser.
\<close>

definition tcp_branch_event_zero :: tcp_branch_event where
  "tcp_branch_event_zero =
     \<lparr>pid = 0, tgid = 0, ts_uptime_us = 0, branch_type = 0, drop_reason = 0,
      saddr = 0, daddr = 0, sport = 0, dport = 0, comm = []\<rparr>"

definition branch_event :: "probe_ctx \<Rightarrow> tcp_branch_event" where
  "branch_event c =
     tcp_branch_event_zero
       \<lparr>pid := ucast (cur_pid_tgid c), tgid := ucast (drop_bit 32 (cur_pid_tgid c)),
        ts_uptime_us := ktime_ns c div 1000, comm := cur_comm c\<rparr>"

text \<open>
  The state of the program is the sequence of records handed to
  \<^verbatim>\<open>tcp_branch_events.perf_submit\<close>, oldest first. The nine handlers of
  tcp\_v4\_rcv.bpf.c are the first nine below, with the same constants.
\<close>

definition trace_tcp_v4_rcv ::
  "probe_ctx \<Rightarrow> skb_headers \<Rightarrow> tcp_branch_event list \<Rightarrow> tcp_branch_event list" where
  "trace_tcp_v4_rcv c h out =
     out @ [(branch_event c)\<lparr>branch_type := TCP_BRANCH_ENTRY, drop_reason := 0,
              saddr := ip_saddr h, daddr := ip_daddr h,
              sport := tcp_source h, dport := tcp_dest h\<rparr>]"

definition trace_not_for_host :: "probe_ctx \<Rightarrow> tcp_branch_event list \<Rightarrow> tcp_branch_event list" where
  "trace_not_for_host c out =
     out @ [(branch_event c)\<lparr>branch_type := TCP_BRANCH_NOT_FOR_HOST,
              drop_reason := SKB_DROP_REASON_NOT_SPECIFIED\<rparr>]"

definition trace_no_socket :: "probe_ctx \<Rightarrow> tcp_branch_event list \<Rightarrow> tcp_branch_event list" where
  "trace_no_socket c out =
     out @ [(branch_event c)\<lparr>branch_type := TCP_BRANCH_NO_SOCKET,
              drop_reason := SKB_DROP_REASON_NO_SOCKET\<rparr>]"

definition trace_time_wait :: "probe_ctx \<Rightarrow> tcp_branch_event list \<Rightarrow> tcp_branch_event list" where
  "trace_time_wait c out =
     out @ [(branch_event c)\<lparr>branch_type := TCP_BRANCH_TIME_WAIT, drop_reason := 0\<rparr>]"

definition trace_checksum_error :: "probe_ctx \<Rightarrow> tcp_branch_event list \<Rightarrow> tcp_branch_event list" where
  "trace_checksum_error c out =
     out @ [(branch_event c)\<lparr>branch_type := TCP_BRANCH_CHECKSUM_ERR,
              drop_reason := SKB_DROP_REASON_TCP_CSUM\<rparr>]"

definition trace_listen_state :: "probe_ctx \<Rightarrow> tcp_branch_event list \<Rightarrow> tcp_branch_event list" where
  "trace_listen_state c out = out @ [(branch_event c)\<lparr>branch_type := TCP_BRANCH_LISTEN\<rparr>]"

definition trace_socket_busy :: "probe_ctx \<Rightarrow> tcp_branch_event list \<Rightarrow> tcp_branch_event list" where
  "trace_socket_busy c out = out @ [(branch_event c)\<lparr>branch_type := TCP_BRANCH_SOCKET_BUSY\<rparr>]"

definition trace_xfrm_policy_drop :: "probe_ctx \<Rightarrow> tcp_branch_event list \<Rightarrow> tcp_branch_event list" where
  "trace_xfrm_policy_drop c out =
     out @ [(branch_event c)\<lparr>branch_type := TCP_BRANCH_XFRM_DROP,
              drop_reason := SKB_DROP_REASON_XFRM_POLICY\<rparr>]"

definition trace_new_syn_recv :: "probe_ctx \<Rightarrow> tcp_branch_event list \<Rightarrow> tcp_branch_event list" where
  "trace_new_syn_recv c out = out @ [(branch_event c)\<lparr>branch_type := TCP_BRANCH_NEW_SYN_RECV\<rparr>]"

definition trace_pkt_too_small :: "probe_ctx \<Rightarrow> tcp_branch_event list \<Rightarrow> tcp_branch_event list" where
  "trace_pkt_too_small c out =
     out @ [(branch_event c)\<lparr>branch_type := TCP_BRANCH_PKT_TOO_SMALL,
              drop_reason := SKB_DROP_REASON_PKT_TOO_SMALL\<rparr>]"

definition trace_min_ttl_drop :: "probe_ctx \<Rightarrow> tcp_branch_event list \<Rightarrow> tcp_branch_event list" where
  "trace_min_ttl_drop c out =
     out @ [(branch_event c)\<lparr>branch_type := TCP_BRANCH_MIN_TTL_DROP,
              drop_reason := SKB_DROP_REASON_TCP_MINTTL\<rparr>]"

definition trace_socket_filter_drop :: "probe_ctx \<Rightarrow> tcp_branch_event list \<Rightarrow> tcp_branch_event list" where
  "trace_socket_filter_drop c out =
     out @ [(branch_event c)\<lparr>branch_type := TCP_BRANCH_SOCKET_FILTER,
              drop_reason := SKB_DROP_REASON_SOCKET_FILTER\<rparr>]"

definition trace_do_rcv_call :: "probe_ctx \<Rightarrow> tcp_branch_event list \<Rightarrow> tcp_branch_event list" where
  "trace_do_rcv_call c out = out @ [(branch_event c)\<lparr>branch_type := TCP_BRANCH_DO_RCV_CALL\<rparr>]"

definition trace_md5_fail :: "probe_ctx \<Rightarrow> tcp_branch_event list \<Rightarrow> tcp_branch_event list" where
  "trace_md5_fail c out =
     out @ [(branch_event c)\<lparr>branch_type := TCP_BRANCH_MD5_FAIL,
              drop_reason := SKB_DROP_REASON_NOT_SPECIFIED\<rparr>]"

definition trace_backlog_add :: "probe_ctx \<Rightarrow> tcp_branch_event list \<Rightarrow> tcp_branch_event list" where
  "trace_backlog_add c out = out @ [(branch_event c)\<lparr>branch_type := TCP_BRANCH_BACKLOG_ADD\<rparr>]"

definition trace_req_stolen :: "probe_ctx \<Rightarrow> tcp_branch_event list \<Rightarrow> tcp_branch_event list" where
  "trace_req_stolen c out = out @ [(branch_event c)\<lparr>branch_type := TCP_BRANCH_REQ_STOLEN\<rparr>]"

definition trace_listen_drop :: "probe_ctx \<Rightarrow> tcp_branch_event list \<Rightarrow> tcp_branch_event list" where
  "trace_listen_drop c out = out @ [(branch_event c)\<lparr>branch_type := TCP_BRANCH_LISTEN_DROP\<rparr>]"

definition trace_rst_sent :: "probe_ctx \<Rightarrow> tcp_branch_event list \<Rightarrow> tcp_branch_event list" where
  "trace_rst_sent c out = out @ [(branch_event c)\<lparr>branch_type := TCP_BRANCH_RST_SENT\<rparr>]"

definition trace_established :: "probe_ctx \<Rightarrow> tcp_branch_event list \<Rightarrow> tcp_branch_event list" where
  "trace_established c out = out @ [(branch_event c)\<lparr>branch_type := TCP_BRANCH_ESTABLISHED\<rparr>]"

text \<open>
  One observation of the receive path is the probe that fired with its context; a run
  applies the handlers in the order of firing.
\<close>

datatype rcv_probe =
    RCV_ENTRY skb_headers | NOT_FOR_HOST | NO_SOCKET | TIME_WAIT | CHECKSUM_ERROR
  | LISTEN_STATE | SOCKET_BUSY | XFRM_POLICY_DROP | NEW_SYN_RECV | PKT_TOO_SMALL
  | MIN_TTL_DROP | SOCKET_FILTER_DROP | DO_RCV_CALL | MD5_FAIL | BACKLOG_ADD
  | REQ_STOLEN | LISTEN_DROP | RST_SENT | ESTABLISHED

fun rcv_fire :: "tcp_branch_event list \<Rightarrow> rcv_probe \<times> probe_ctx \<Rightarrow> tcp_branch_event list" where
  "rcv_fire out (RCV_ENTRY h, c) = trace_tcp_v4_rcv c h out"
| "rcv_fire out (NOT_FOR_HOST, c) = trace_not_for_host c out"
| "rcv_fire out (NO_SOCKET, c) = trace_no_socket c out"
| "rcv_fire out (TIME_WAIT, c) = trace_time_wait c out"
| "rcv_fire out (CHECKSUM_ERROR, c) = trace_checksum_error c out"
| "rcv_fire out (LISTEN_STATE, c) = trace_listen_state c out"
| "rcv_fire out (SOCKET_BUSY, c) = trace_socket_busy c out"
| "rcv_fire out (XFRM_POLICY_DROP, c) = trace_xfrm_policy_drop c out"
| "rcv_fire out (NEW_SYN_RECV, c) = trace_new_syn_recv c out"
| "rcv_fire out (PKT_TOO_SMALL, c) = trace_pkt_too_small c out"
| "rcv_fire out (MIN_TTL_DROP, c) = trace_min_ttl_drop c out"
| "rcv_fire out (SOCKET_FILTER_DROP, c) = trace_socket_filter_drop c out"
| "rcv_fire out (DO_RCV_CALL, c) = trace_do_rcv_call c out"
| "rcv_fire out (MD5_FAIL, c) = trace_md5_fail c out"
| "rcv_fire out (BACKLOG_ADD, c) = trace_backlog_add c out"
| "rcv_fire out (REQ_STOLEN, c) = trace_req_stolen c out"
| "rcv_fire out (LISTEN_DROP, c) = trace_listen_drop c out"
| "rcv_fire out (RST_SENT, c) = trace_rst_sent c out"
| "rcv_fire out (ESTABLISHED, c) = trace_established c out"

definition rcv_run :: "(rcv_probe \<times> probe_ctx) list \<Rightarrow> tcp_branch_event list" where
  "rcv_run obs = foldl rcv_fire [] obs"

section \<open>madvise: the program with \<^verbatim>\<open>madvise_hash\<close> and \<^verbatim>\<open>munmap_hash\<close>, and madvise.bpf.c\<close>

record madvise_output_t =
  tgid :: u32
  ts_ns :: u64
  address :: u64
  length_bytes :: u64
  advice :: s32

text \<open>
  What the entry probe reads from its arguments: \<^verbatim>\<open>mm->owner->tgid\<close>, \<^verbatim>\<open>addr\<close>,
  \<^verbatim>\<open>length\<close> and \<^verbatim>\<open>advice\<close>.
\<close>

record madvise_args =
  owner_tgid :: u32
  addr :: u64
  len :: u64
  advice_arg :: s32

text \<open>
  \<^verbatim>\<open>BPF_HASH(madvise_hash, u32, madvise_output_t, 32768)\<close> and the records handed to
  \<^verbatim>\<open>madvise_output.perf_submit\<close>. The munmap pair of the same file works on its own
  table \<^verbatim>\<open>munmap_hash\<close> and is not needed here.
\<close>

definition MADVISE_HASH_SIZE :: nat where
  "MADVISE_HASH_SIZE = 32768"

record madvise_state =
  madvise_hash :: "(u32, madvise_output_t) bpf_hash"
  madvise_output :: "madvise_output_t list"

definition madvise_init :: madvise_state where
  "madvise_init = \<lparr>madvise_hash = fmempty, madvise_output = []\<rparr>"

definition kprobe__do_madvise :: "probe_ctx \<Rightarrow> madvise_args \<Rightarrow> madvise_state \<Rightarrow> madvise_state" where
  "kprobe__do_madvise c a s =
     (let pid = (ucast (cur_pid_tgid c) :: u32);
          data = \<lparr>tgid = owner_tgid a, ts_ns = ktime_ns c, address = addr a,
                  length_bytes = len a, advice = advice_arg a\<rparr>
      in s\<lparr>madvise_hash := hash_insert MADVISE_HASH_SIZE (madvise_hash s) pid data\<rparr>)"

text \<open>
  The return probe of the two-table program. Its first \<^verbatim>\<open>if\<close> has no braces, so the
  \<^verbatim>\<open>return 0\<close> on the next line always runs:
  \<^verbatim>\<open>if (((int)PT_REGS_RC(ctx)) != 0) madvise_hash.delete(&pid); return 0;\<close>
  and the lookup, the submit and the second delete below it are never reached.
\<close>

definition kretprobe__do_madvise :: "probe_ctx \<Rightarrow> madvise_state \<Rightarrow> madvise_state" where
  "kretprobe__do_madvise c s =
     (let pid = (ucast (cur_pid_tgid c) :: u32) in
      if (ucast (regs_rc c) :: s32) \<noteq> 0
      then s\<lparr>madvise_hash := hash_delete (madvise_hash s) pid\<rparr>
      else s)"

text \<open>
  The return probe of madvise.bpf.c: a failed call returns at once, a missing record
  returns at once, otherwise the stored record is submitted and deleted.
\<close>

definition madvise_bpf_kretprobe__do_madvise :: "probe_ctx \<Rightarrow> madvise_state \<Rightarrow> madvise_state" where
  "madvise_bpf_kretprobe__do_madvise c s =
     (if (ucast (regs_rc c) :: s32) \<noteq> 0 then s
      else
        (let pid = (ucast (cur_pid_tgid c) :: u32) in
         case hash_lookup (madvise_hash s) pid of
           None \<Rightarrow> s
         | Some data \<Rightarrow>
             \<lparr>madvise_hash = hash_delete (madvise_hash s) pid,
              madvise_output = madvise_output s @ [data]\<rparr>))"

datatype madvise_obs = MADVISE_ENTRY probe_ctx madvise_args | MADVISE_RETURN probe_ctx

fun madvise_fire :: "madvise_state \<Rightarrow> madvise_obs \<Rightarrow> madvise_state" where
  "madvise_fire s (MADVISE_ENTRY c a) = kprobe__do_madvise c a s"
| "madvise_fire s (MADVISE_RETURN c) = kretprobe__do_madvise c s"

definition madvise_run :: "madvise_obs list \<Rightarrow> madvise_state" where
  "madvise_run obs = foldl madvise_fire madvise_init obs"

section \<open>RSS accounting (the rss\_stat program)\<close>

definition PAGE_SZ :: nat where "PAGE_SZ = 12"

record rss_stat_output_t =
  pid :: u32
  tgid :: u32
  ts :: u64
  member :: s32
  counter_value :: u64

record rss_stat_state =
  rss_stat_hash :: "(u32, rss_stat_output_t) bpf_hash"
  rss_stat_output :: "rss_stat_output_t list"

text \<open>
  The raw tracepoint stores a zeroed record carrying \<^verbatim>\<open>mm->owner->pid\<close> and
  \<^verbatim>\<open>mm->owner->tgid\<close> (the arguments \<open>mm_owner_pid\<close> and \<open>mm_owner_tgid\<close>).
\<close>

definition raw_tracepoint__rss_stat :: "probe_ctx \<Rightarrow> u32 \<Rightarrow> u32 \<Rightarrow> rss_stat_state \<Rightarrow> rss_stat_state" where
  "raw_tracepoint__rss_stat c mm_owner_pid mm_owner_tgid s =
     (let pid = (ucast (cur_pid_tgid c) :: u32);
          stack_data = \<lparr>pid = mm_owner_pid, tgid = mm_owner_tgid, ts = 0, member = 0, counter_value = 0\<rparr>
      in s\<lparr>rss_stat_hash := hash_insert 32768 (rss_stat_hash s) pid stack_data\<rparr>)"

text \<open>
  The tracepoint \<^verbatim>\<open>kmem:rss_stat\<close> with its arguments \<^verbatim>\<open>args->member\<close> (an int) and
  \<^verbatim>\<open>args->size\<close> (a signed long, so the shift is arithmetic).
\<close>

definition tracepoint__kmem__rss_stat :: "probe_ctx \<Rightarrow> s32 \<Rightarrow> u64 \<Rightarrow> rss_stat_state \<Rightarrow> rss_stat_state" where
  "tracepoint__kmem__rss_stat c args_member args_size s =
     (let pid = (ucast (cur_pid_tgid c) :: u32) in
      case hash_lookup (rss_stat_hash s) pid of
        None \<Rightarrow> s
      | Some data \<Rightarrow>
          (let data' = data\<lparr>member := args_member,
                             counter_value := signed_drop_bit PAGE_SZ args_size,
                             ts := ktime_ns c\<rparr>
           in \<lparr>rss_stat_hash = hash_delete (rss_stat_hash s) pid,
               rss_stat_output = rss_stat_output s @ [data']\<rparr>))"

section \<open>Page faults (the entry/return program with \<^verbatim>\<open>fault_entry\<close>)\<close>

definition VM_FAULT_MAJOR :: u64 where "VM_FAULT_MAJOR = 0x0200"
definition VM_FAULT_ERROR :: u64 where "VM_FAULT_ERROR = 0x0001"

definition FAULT_ENTRY_SIZE :: nat where
  "FAULT_ENTRY_SIZE = 10240"

text \<open>
  \<^verbatim>\<open>FAULT_FLAG_WRITE\<close> and \<^verbatim>\<open>FAULT_FLAG_INSTRUCTION\<close> come from the kernel headers;
  the handlers take them as parameters.
\<close>

record fault_flag_consts =
  FAULT_FLAG_WRITE :: u32
  FAULT_FLAG_INSTRUCTION :: u32

record page_fault_info_t =
  pid :: u32
  address :: u64
  flags :: u32
  ts_start :: u64

record page_fault_event_t =
  pid :: u32
  tgid :: u32
  ts_uptime_us :: u64
  address :: u64
  error_code :: u32
  is_major :: u8
  is_write :: u8
  is_exec :: u8
  comm :: string

record fault_state =
  fault_entry :: "(u32, page_fault_info_t) bpf_hash"
  page_fault_events :: "page_fault_event_t list"

definition fault_init :: fault_state where
  "fault_init = \<lparr>fault_entry = fmempty, page_fault_events = []\<rparr>"

text \<open>The entry probe with its arguments \<^verbatim>\<open>address\<close> and \<^verbatim>\<open>flags\<close>.\<close>

definition trace_handle_mm_fault_entry :: "probe_ctx \<Rightarrow> u64 \<Rightarrow> u32 \<Rightarrow> fault_state \<Rightarrow> fault_state" where
  "trace_handle_mm_fault_entry c fault_address fault_flags s =
     (let pid = (ucast (cur_pid_tgid c) :: u32);
          info = \<lparr>page_fault_info_t.pid = pid, address = fault_address, flags = fault_flags,
                  ts_start = ktime_ns c\<rparr>
      in s\<lparr>fault_entry := hash_update FAULT_ENTRY_SIZE (fault_entry s) pid info\<rparr>)"

definition trace_handle_mm_fault_return ::
  "fault_flag_consts \<Rightarrow> probe_ctx \<Rightarrow> fault_state \<Rightarrow> fault_state" where
  "trace_handle_mm_fault_return k c s =
     (let pid = (ucast (cur_pid_tgid c) :: u32) in
      case hash_lookup (fault_entry s) pid of
        None \<Rightarrow> s
      | Some info \<Rightarrow>
          (let ret = regs_rc c in
           if ret AND VM_FAULT_ERROR \<noteq> 0
           then s\<lparr>fault_entry := hash_delete (fault_entry s) pid\<rparr>
           else
             (let event =
                    \<lparr>pid = page_fault_info_t.pid info,
                     tgid = ucast (drop_bit 32 (cur_pid_tgid c)),
                     ts_uptime_us = ts_start info div 1000,
                     address = page_fault_info_t.address info,
                     error_code = 0,
                     is_major = (if ret AND VM_FAULT_MAJOR \<noteq> 0 then 1 else 0),
                     is_write = (if flags info AND FAULT_FLAG_WRITE k \<noteq> 0 then 1 else 0),
                     is_exec = (if flags info AND FAULT_FLAG_INSTRUCTION k \<noteq> 0 then 1 else 0),
                     comm = cur_comm c\<rparr>
              in \<lparr>fault_entry = hash_delete (fault_entry s) pid,
                  page_fault_events = page_fault_events s @ [event]\<rparr>)))"

datatype fault_obs = FAULT_ENTRY probe_ctx u64 u32 | FAULT_RETURN probe_ctx

fun fault_fire :: "fault_flag_consts \<Rightarrow> fault_state \<Rightarrow> fault_obs \<Rightarrow> fault_state" where
  "fault_fire k s (FAULT_ENTRY c a f) = trace_handle_mm_fault_entry c a f s"
| "fault_fire k s (FAULT_RETURN c) = trace_handle_mm_fault_return k c s"

definition fault_run :: "fault_flag_consts \<Rightarrow> fault_obs list \<Rightarrow> fault_state" where
  "fault_run k obs = foldl (fault_fire k) fault_init obs"

section \<open>zswap\_runtime.bpf.c\<close>

record zswap_event_t =
  pid :: u32
  tgid :: u32
  start_ts :: u64
  end_ts :: u64

text \<open>
  \<^verbatim>\<open>BPF_HASH(stores, u64, u64)\<close> and the records handed to
  \<^verbatim>\<open>zswap_store_events.perf_submit\<close>. The load and invalidate pairs repeat the store
  pair on tables and channels of their own.
\<close>

record zswap_state =
  stores :: "(u64, u64) bpf_hash"
  zswap_store_events :: "zswap_event_t list"

definition zswap_init :: zswap_state where
  "zswap_init = \<lparr>stores = fmempty, zswap_store_events = []\<rparr>"

text \<open>
  The kernel's \<^verbatim>\<open>IS_ERR\<close> (include/linux/err.h): a pointer value in the last 4095
  addresses, \<^verbatim>\<open>(unsigned long)ptr >= (unsigned long)-MAX_ERRNO\<close>.
\<close>

definition IS_ERR :: "u64 \<Rightarrow> bool" where
  "IS_ERR ptr \<longleftrightarrow> ptr \<ge> - 4095"

definition trace_zswap_store_entry :: "probe_ctx \<Rightarrow> zswap_state \<Rightarrow> zswap_state" where
  "trace_zswap_store_entry c s =
     (let id = cur_pid_tgid c; start_ts = ktime_ns c
      in s\<lparr>stores := hash_update BPF_HASH_DEFAULT_SIZE (stores s) id start_ts\<rparr>)"

definition trace_zswap_store_return :: "probe_ctx \<Rightarrow> zswap_state \<Rightarrow> zswap_state" where
  "trace_zswap_store_return c s =
     (let id = cur_pid_tgid c in
      case hash_lookup (stores s) id of
        None \<Rightarrow> s
      | Some start \<Rightarrow>
          if IS_ERR (regs_rc c) then s
          else
            (let event = \<lparr>pid = ucast id, tgid = ucast (drop_bit 32 id),
                          start_ts = start, end_ts = ktime_ns c\<rparr>
             in \<lparr>stores = hash_delete (stores s) id,
                 zswap_store_events = zswap_store_events s @ [event]\<rparr>))"

section \<open>tcp\_v4\_connect.bpf.c\<close>

definition CONNECT_ENTRY :: u8 where "CONNECT_ENTRY = 0"
definition CONNECT_INVALID_ADDRLEN :: u8 where "CONNECT_INVALID_ADDRLEN = 1"
definition CONNECT_WRONG_FAMILY :: u8 where "CONNECT_WRONG_FAMILY = 2"
definition CONNECT_ROUTE_ERROR :: u8 where "CONNECT_ROUTE_ERROR = 3"
definition CONNECT_MULTICAST_BCAST :: u8 where "CONNECT_MULTICAST_BCAST = 4"
definition CONNECT_NO_SRC_ADDR :: u8 where "CONNECT_NO_SRC_ADDR = 5"
definition CONNECT_TS_RESET :: u8 where "CONNECT_TS_RESET = 6"
definition CONNECT_REPAIR_MODE :: u8 where "CONNECT_REPAIR_MODE = 7"
definition CONNECT_HASH_ERROR :: u8 where "CONNECT_HASH_ERROR = 8"
definition CONNECT_FASTOPEN_DEFER :: u8 where "CONNECT_FASTOPEN_DEFER = 9"
definition CONNECT_TCP_CONNECT_ERR :: u8 where "CONNECT_TCP_CONNECT_ERR = 10"
definition CONNECT_ENETUNREACH :: u8 where "CONNECT_ENETUNREACH = 11"
definition CONNECT_NEW_SPORT :: u8 where "CONNECT_NEW_SPORT = 12"
definition CONNECT_WRITE_SEQ_INIT :: u8 where "CONNECT_WRITE_SEQ_INIT = 13"
definition CONNECT_SUCCESS :: u8 where "CONNECT_SUCCESS = 14"
definition CONNECT_SRC_BIND_FAIL :: u8 where "CONNECT_SRC_BIND_FAIL = 15"
definition CONNECT_PORT_EXHAUSTED :: u8 where "CONNECT_PORT_EXHAUSTED = 16"
definition CONNECT_ROUTE_LOOKUP :: u8 where "CONNECT_ROUTE_LOOKUP = 17"
definition CONNECT_PORT_ALLOC :: u8 where "CONNECT_PORT_ALLOC = 18"
definition CONNECT_REGULAR_SYN :: u8 where "CONNECT_REGULAR_SYN = 19"
definition CONNECT_ERROR_PATH :: u8 where "CONNECT_ERROR_PATH = 20"

definition PATH_FAST :: u8 where "PATH_FAST = 0"
definition PATH_SLOW :: u8 where "PATH_SLOW = 1"
definition PATH_ERROR :: u8 where "PATH_ERROR = 2"
definition PATH_FASTOPEN :: u8 where "PATH_FASTOPEN = 3"

definition ERR_NONE :: s32 where "ERR_NONE = 0"
definition ERR_EINVAL :: s32 where "ERR_EINVAL = - 22"
definition ERR_EAFNOSUPPORT :: s32 where "ERR_EAFNOSUPPORT = - 97"
definition ERR_EADDRINUSE :: s32 where "ERR_EADDRINUSE = - 98"
definition ERR_EADDRNOTAVAIL :: s32 where "ERR_EADDRNOTAVAIL = - 99"
definition ERR_ENETUNREACH :: s32 where "ERR_ENETUNREACH = - 101"
definition ERR_ENOMEM :: s32 where "ERR_ENOMEM = - 12"

record connect_event =
  pid :: u32
  tgid :: u32
  ts_uptime_us :: u64
  latency_ns :: u64
  branch_type :: u8
  path_type :: u8
  error_code :: s32
  saddr :: u32
  daddr :: u32
  sport :: u16
  dport :: u16
  comm :: string

text \<open>
  The four values \<^verbatim>\<open>bpf_probe_read\<close> copies out of the socket address and the socket
  at the entry of \<^verbatim>\<open>tcp_v4_connect\<close>.
\<close>

record connect_args =
  sin_addr :: u32
  sin_port :: u16
  inet_saddr :: u32
  inet_sport :: u16

text \<open>
  The state of the program: the two hash tables of default size and the records handed
  to \<^verbatim>\<open>connect_events.perf_submit\<close>, oldest first. The three statistics arrays
  (\<^verbatim>\<open>branch_stats\<close>, \<^verbatim>\<open>path_stats\<close>, \<^verbatim>\<open>error_stats\<close>) are only ever incremented: no
  handler reads a counter back, so the tables and the submitted records do not depend on
  them. Their index is read through a pointer into the record, so which counter moves
  depends on the layout of the record in memory; they are not part of this state.
\<close>

record connect_state =
  connect_start_times :: "(u32, u64) bpf_hash"
  connect_tracking :: "(u32, connect_event) bpf_hash"
  connect_events :: "connect_event list"

definition connect_init :: connect_state where
  "connect_init = \<lparr>connect_start_times = fmempty, connect_tracking = fmempty, connect_events = []\<rparr>"

text \<open>\<^verbatim>\<open>u32 tid = bpf_get_current_pid_tgid();\<close> keeps the low 32 bits.\<close>

definition tid_of :: "probe_ctx \<Rightarrow> u32" where
  "tid_of c = ucast (cur_pid_tgid c)"

definition trace_tcp_v4_connect :: "probe_ctx \<Rightarrow> connect_args \<Rightarrow> connect_state \<Rightarrow> connect_state" where
  "trace_tcp_v4_connect c a s =
     (let tid = tid_of c;
          ts = ktime_ns c;
          start_times = hash_update BPF_HASH_DEFAULT_SIZE (connect_start_times s) tid ts;
          event = \<lparr>pid = tid, tgid = drop_bit 32 tid, ts_uptime_us = ts div 1000,
                   latency_ns = 0, branch_type = CONNECT_ENTRY, path_type = 0,
                   error_code = ERR_NONE, saddr = inet_saddr a, daddr = sin_addr a,
                   sport = inet_sport a, dport = sin_port a, comm = cur_comm c\<rparr>
      in \<lparr>connect_start_times = start_times,
          connect_tracking = hash_update BPF_HASH_DEFAULT_SIZE (connect_tracking s) tid event,
          connect_events = connect_events s @ [event]\<rparr>)"

text \<open>
  The sixteen probes inside the function share one shape: look the record of the thread
  up, and when it exists refresh its latency (when a start time exists) and timestamp,
  set the fields of the branch, and submit it. The record is changed through the pointer
  that \<^verbatim>\<open>lookup\<close> returned, so the change stays in the table. \<open>branch_probe\<close> is that
  shape; \<open>set_fields\<close> is what the single probe assigns.
\<close>

definition branch_probe ::
  "(connect_event \<Rightarrow> connect_event) \<Rightarrow> probe_ctx \<Rightarrow> connect_state \<Rightarrow> connect_state" where
  "branch_probe set_fields c s =
     (let tid = tid_of c in
      case hash_lookup (connect_tracking s) tid of
        None \<Rightarrow> s
      | Some event \<Rightarrow>
          (let ts = ktime_ns c;
               event1 = (case hash_lookup (connect_start_times s) tid of
                           None \<Rightarrow> event
                         | Some start \<Rightarrow> event\<lparr>latency_ns := ts - start\<rparr>);
               event2 = set_fields (event1\<lparr>ts_uptime_us := ts div 1000\<rparr>)
           in s\<lparr>connect_tracking := fmupd tid event2 (connect_tracking s),
                connect_events := connect_events s @ [event2]\<rparr>))"

definition trace_invalid_addrlen :: "probe_ctx \<Rightarrow> connect_state \<Rightarrow> connect_state" where
  "trace_invalid_addrlen =
     branch_probe (\<lambda>e. e\<lparr>branch_type := CONNECT_INVALID_ADDRLEN, error_code := ERR_EINVAL,
                         path_type := PATH_ERROR\<rparr>)"

definition trace_wrong_family :: "probe_ctx \<Rightarrow> connect_state \<Rightarrow> connect_state" where
  "trace_wrong_family =
     branch_probe (\<lambda>e. e\<lparr>branch_type := CONNECT_WRONG_FAMILY, error_code := ERR_EAFNOSUPPORT,
                         path_type := PATH_ERROR\<rparr>)"

definition trace_route_lookup :: "probe_ctx \<Rightarrow> connect_state \<Rightarrow> connect_state" where
  "trace_route_lookup = branch_probe (\<lambda>e. e\<lparr>branch_type := CONNECT_ROUTE_LOOKUP\<rparr>)"

definition trace_route_error :: "probe_ctx \<Rightarrow> connect_state \<Rightarrow> connect_state" where
  "trace_route_error c =
     branch_probe (\<lambda>e. e\<lparr>branch_type := CONNECT_ROUTE_ERROR, error_code := ucast (regs_rc c),
                         path_type := PATH_ERROR\<rparr>) c"

definition trace_multicast_bcast :: "probe_ctx \<Rightarrow> connect_state \<Rightarrow> connect_state" where
  "trace_multicast_bcast =
     branch_probe (\<lambda>e. e\<lparr>branch_type := CONNECT_MULTICAST_BCAST, error_code := ERR_ENETUNREACH,
                         path_type := PATH_ERROR\<rparr>)"

definition trace_no_src_addr :: "probe_ctx \<Rightarrow> connect_state \<Rightarrow> connect_state" where
  "trace_no_src_addr = branch_probe (\<lambda>e. e\<lparr>branch_type := CONNECT_NO_SRC_ADDR\<rparr>)"

definition trace_src_bind_fail :: "probe_ctx \<Rightarrow> connect_state \<Rightarrow> connect_state" where
  "trace_src_bind_fail c =
     branch_probe (\<lambda>e. e\<lparr>branch_type := CONNECT_SRC_BIND_FAIL, error_code := ucast (regs_rc c),
                         path_type := PATH_ERROR\<rparr>) c"

definition trace_port_alloc :: "probe_ctx \<Rightarrow> connect_state \<Rightarrow> connect_state" where
  "trace_port_alloc = branch_probe (\<lambda>e. e\<lparr>branch_type := CONNECT_PORT_ALLOC\<rparr>)"

definition trace_hash_error :: "probe_ctx \<Rightarrow> connect_state \<Rightarrow> connect_state" where
  "trace_hash_error =
     branch_probe (\<lambda>e. e\<lparr>branch_type := CONNECT_HASH_ERROR, path_type := PATH_ERROR\<rparr>)"

definition trace_fastopen_defer :: "probe_ctx \<Rightarrow> connect_state \<Rightarrow> connect_state" where
  "trace_fastopen_defer =
     branch_probe (\<lambda>e. e\<lparr>branch_type := CONNECT_FASTOPEN_DEFER, path_type := PATH_FASTOPEN\<rparr>)"

definition trace_regular_syn :: "probe_ctx \<Rightarrow> connect_state \<Rightarrow> connect_state" where
  "trace_regular_syn =
     branch_probe (\<lambda>e. e\<lparr>branch_type := CONNECT_REGULAR_SYN, path_type := PATH_SLOW\<rparr>)"

definition trace_tcp_connect_err :: "probe_ctx \<Rightarrow> connect_state \<Rightarrow> connect_state" where
  "trace_tcp_connect_err c =
     branch_probe (\<lambda>e. e\<lparr>branch_type := CONNECT_TCP_CONNECT_ERR, error_code := ucast (regs_rc c),
                         path_type := PATH_ERROR\<rparr>) c"

definition trace_enetunreach :: "probe_ctx \<Rightarrow> connect_state \<Rightarrow> connect_state" where
  "trace_enetunreach =
     branch_probe (\<lambda>e. e\<lparr>branch_type := CONNECT_ENETUNREACH, error_code := ERR_ENETUNREACH,
                         path_type := PATH_ERROR\<rparr>)"

definition trace_new_sport :: "probe_ctx \<Rightarrow> connect_state \<Rightarrow> connect_state" where
  "trace_new_sport = branch_probe (\<lambda>e. e\<lparr>branch_type := CONNECT_NEW_SPORT\<rparr>)"

definition trace_write_seq_init :: "probe_ctx \<Rightarrow> connect_state \<Rightarrow> connect_state" where
  "trace_write_seq_init = branch_probe (\<lambda>e. e\<lparr>branch_type := CONNECT_WRITE_SEQ_INIT\<rparr>)"

definition trace_error_path :: "probe_ctx \<Rightarrow> connect_state \<Rightarrow> connect_state" where
  "trace_error_path =
     branch_probe (\<lambda>e. e\<lparr>branch_type := CONNECT_ERROR_PATH, path_type := PATH_ERROR\<rparr>)"

text \<open>
  The return probe: as above, but the start time is deleted once read, the return value
  decides branch and path, and the record is deleted after it has been submitted.
\<close>

definition trace_tcp_v4_connect_return :: "probe_ctx \<Rightarrow> connect_state \<Rightarrow> connect_state" where
  "trace_tcp_v4_connect_return c s =
     (let tid = tid_of c in
      case hash_lookup (connect_tracking s) tid of
        None \<Rightarrow> s
      | Some event \<Rightarrow>
          (let ts = ktime_ns c;
               (event1, start_times) =
                 (case hash_lookup (connect_start_times s) tid of
                    None \<Rightarrow> (event, connect_start_times s)
                  | Some start \<Rightarrow> (event\<lparr>latency_ns := ts - start\<rparr>,
                                   hash_delete (connect_start_times s) tid));
               event2 = event1\<lparr>ts_uptime_us := ts div 1000, error_code := ucast (regs_rc c)\<rparr>;
               event3 = (if error_code event2 = 0
                         then event2\<lparr>branch_type := CONNECT_SUCCESS, path_type := PATH_FAST\<rparr>
                         else if path_type event2 = 0 then event2\<lparr>path_type := PATH_ERROR\<rparr>
                         else event2)
           in \<lparr>connect_start_times = start_times,
               connect_tracking = hash_delete (connect_tracking s) tid,
               connect_events = connect_events s @ [event3]\<rparr>))"

text \<open>
  One observation of the connect path is the probe that fired with its context; a run
  applies the handlers in the order of firing, starting from empty tables.
\<close>

datatype connect_probe =
    TCP_V4_CONNECT connect_args | INVALID_ADDRLEN | WRONG_FAMILY | ROUTE_LOOKUP
  | ROUTE_ERROR | MULTICAST_BCAST | NO_SRC_ADDR | SRC_BIND_FAIL | PORT_ALLOC
  | HASH_ERROR | FASTOPEN_DEFER | REGULAR_SYN | TCP_CONNECT_ERR | ENETUNREACH
  | NEW_SPORT | WRITE_SEQ_INIT | ERROR_PATH | TCP_V4_CONNECT_RETURN

fun connect_fire :: "connect_state \<Rightarrow> connect_probe \<times> probe_ctx \<Rightarrow> connect_state" where
  "connect_fire s (TCP_V4_CONNECT a, c) = trace_tcp_v4_connect c a s"
| "connect_fire s (INVALID_ADDRLEN, c) = trace_invalid_addrlen c s"
| "connect_fire s (WRONG_FAMILY, c) = trace_wrong_family c s"
| "connect_fire s (ROUTE_LOOKUP, c) = trace_route_lookup c s"
| "connect_fire s (ROUTE_ERROR, c) = trace_route_error c s"
| "connect_fire s (MULTICAST_BCAST, c) = trace_multicast_bcast c s"
| "connect_fire s (NO_SRC_ADDR, c) = trace_no_src_addr c s"
| "connect_fire s (SRC_BIND_FAIL, c) = trace_src_bind_fail c s"
| "connect_fire s (PORT_ALLOC, c) = trace_port_alloc c s"
| "connect_fire s (HASH_ERROR, c) = trace_hash_error c s"
| "connect_fire s (FASTOPEN_DEFER, c) = trace_fastopen_defer c s"
| "connect_fire s (REGULAR_SYN, c) = trace_regular_syn c s"
| "connect_fire s (TCP_CONNECT_ERR, c) = trace_tcp_connect_err c s"
| "connect_fire s (ENETUNREACH, c) = trace_enetunreach c s"
| "connect_fire s (NEW_SPORT, c) = trace_new_sport c s"
| "connect_fire s (WRITE_SEQ_INIT, c) = trace_write_seq_init c s"
| "connect_fire s (ERROR_PATH, c) = trace_error_path c s"
| "connect_fire s (TCP_V4_CONNECT_RETURN, c) = trace_tcp_v4_connect_return c s"

definition connect_run_from :: "connect_state \<Rightarrow> (connect_probe \<times> probe_ctx) list \<Rightarrow> connect_state" where
  "connect_run_from s obs = foldl connect_fire s obs"

definition connect_run :: "(connect_probe \<times> probe_ctx) list \<Rightarrow> connect_state" where
  "connect_run obs = connect_run_from connect_init obs"

section \<open>Enumerations, invariants and sample observations\<close>

text \<open>The branch constants declared for the connect path and for the receive path.\<close>

definition connect_branch_enum :: "u8 set" where
  "connect_branch_enum =
     {CONNECT_ENTRY, CONNECT_INVALID_ADDRLEN, CONNECT_WRONG_FAMILY, CONNECT_ROUTE_ERROR,
      CONNECT_MULTICAST_BCAST, CONNECT_NO_SRC_ADDR, CONNECT_TS_RESET, CONNECT_REPAIR_MODE,
      CONNECT_HASH_ERROR, CONNECT_FASTOPEN_DEFER, CONNECT_TCP_CONNECT_ERR, CONNECT_ENETUNREACH,
      CONNECT_NEW_SPORT, CONNECT_WRITE_SEQ_INIT, CONNECT_SUCCESS, CONNECT_SRC_BIND_FAIL,
      CONNECT_PORT_EXHAUSTED, CONNECT_ROUTE_LOOKUP, CONNECT_PORT_ALLOC, CONNECT_REGULAR_SYN,
      CONNECT_ERROR_PATH}"

definition tcp_branch_enum :: "u8 set" where
  "tcp_branch_enum =
     {TCP_BRANCH_ENTRY, TCP_BRANCH_NOT_FOR_HOST, TCP_BRANCH_NO_SOCKET, TCP_BRANCH_TIME_WAIT,
      TCP_BRANCH_CHECKSUM_ERR, TCP_BRANCH_LISTEN, TCP_BRANCH_SOCKET_BUSY, TCP_BRANCH_XFRM_DROP,
      TCP_BRANCH_NEW_SYN_RECV, TCP_BRANCH_PKT_TOO_SMALL, TCP_BRANCH_MIN_TTL_DROP,
      TCP_BRANCH_SOCKET_FILTER, TCP_BRANCH_DO_RCV_CALL, TCP_BRANCH_MD5_FAIL,
      TCP_BRANCH_BACKLOG_ADD, TCP_BRANCH_REQ_STOLEN, TCP_BRANCH_LISTEN_DROP,
      TCP_BRANCH_RST_SENT, TCP_BRANCH_ESTABLISHED}"

text \<open>
  \<open>tracked P s\<close>: every record submitted so far and every record stored in
  \<^verbatim>\<open>connect_tracking\<close> satisfies \<open>P\<close>.
\<close>

definition tracked :: "(connect_event \<Rightarrow> bool) \<Rightarrow> connect_state \<Rightarrow> bool" where
  "tracked P s \<longleftrightarrow>
     (\<forall>e \<in> set (connect_events s). P e) \<and>
     (\<forall>tid e. fmlookup (connect_tracking s) tid = Some e \<longrightarrow> P e)"

text \<open>Sample inputs: a context with the given thread/process word, clock and return value.\<close>

definition ctx_of :: "u64 \<Rightarrow> u64 \<Rightarrow> u64 \<Rightarrow> probe_ctx" where
  "ctx_of pid_tgid t rc = \<lparr>cur_pid_tgid = pid_tgid, ktime_ns = t, regs_rc = rc, cur_comm = ''curl''\<rparr>"

definition args0 :: connect_args where
  "args0 = \<lparr>sin_addr = 0x0100007F, sin_port = 0x5000, inet_saddr = 0, inet_sport = 0\<rparr>"

text \<open>
  Thread 7 of process 42 connects at 100 ns, passes the \<^verbatim>\<open>inet_hash_connect\<close> error
  probe at 180 ns and returns \<^verbatim>\<open>-EADDRNOTAVAIL\<close> at 250 ns.
\<close>

definition connect_demo :: "(connect_probe \<times> probe_ctx) list" where
  "connect_demo =
     [(TCP_V4_CONNECT args0, ctx_of 0x2A00000007 100 0),
      (HASH_ERROR, ctx_of 0x2A00000007 180 0),
      (TCP_V4_CONNECT_RETURN, ctx_of 0x2A00000007 250 (- 99))]"

definition rcv_demo :: "(rcv_probe \<times> probe_ctx) list" where
  "rcv_demo = [(NEW_SYN_RECV, ctx_of 0x2A00000007 100 0), (LISTEN_DROP, ctx_of 0x2A00000007 180 0)]"

section \<open>Predicates and sample states used in the statements\<close>

text \<open>The probe at the entry of \<^verbatim>\<open>tcp_v4_connect\<close>, as opposed to the probes inside it and at its return.\<close>

fun connect_entry_probe :: "connect_probe \<Rightarrow> bool" where
  "connect_entry_probe (TCP_V4_CONNECT a) = True"
| "connect_entry_probe _ = False"

definition fault_consts0 :: fault_flag_consts where
  "fault_consts0 = \<lparr>FAULT_FLAG_WRITE = 0x1, FAULT_FLAG_INSTRUCTION = 0x100\<rparr>"

definition rss_init :: rss_stat_state where
  "rss_init = \<lparr>rss_stat_hash = fmempty, rss_stat_output = []\<rparr>"

definition other_thread_connecting :: connect_state where
  "other_thread_connecting = connect_run [(TCP_V4_CONNECT args0, ctx_of 0x2A00000008 90 0)]"

text \<open>A table holding one leaf under each of the keys \<open>0, \<dots>, n - 1\<close>.\<close>

definition full_table :: "nat \<Rightarrow> 'v \<Rightarrow> (u32, 'v) bpf_hash" where
  "full_table n v = fmap_of_list (map (\<lambda>i. (word_of_nat i, v)) [0..<n])"

definition madvise_data0 :: madvise_output_t where
  "madvise_data0 =
     \<lparr>madvise_output_t.tgid = 42, ts_ns = 100, madvise_output_t.address = 0x7F0000000000,
      length_bytes = 4096, advice = 4\<rparr>"

definition madvise_args0 :: madvise_args where
  "madvise_args0 = \<lparr>owner_tgid = 42, addr = 0x7F0000000000, len = 4096, advice_arg = 4\<rparr>"

definition madvise_full :: madvise_state where
  "madvise_full = \<lparr>madvise_hash = full_table 32768 madvise_data0, madvise_output = []\<rparr>"

definition fault_info0 :: page_fault_info_t where
  "fault_info0 =
     \<lparr>page_fault_info_t.pid = 0, page_fault_info_t.address = 0x7F0000000000, flags = 1,
      ts_start = 100\<rparr>"

definition fault_full :: fault_state where
  "fault_full = \<lparr>fault_entry = full_table 10240 fault_info0, page_fault_events = []\<rparr>"

definition fault_demo :: fault_state where
  "fault_demo = trace_handle_mm_fault_entry (ctx_of 0x2A00000007 5000 0) 0x7F0000001000 1 fault_init"

definition zswap_demo :: zswap_state where
  "zswap_demo = trace_zswap_store_entry (ctx_of 0x2A00000007 100 0) zswap_init"

definition connect_begun :: connect_state where
  "connect_begun = trace_tcp_v4_connect (ctx_of 0x2A00000007 100 0) args0 connect_init"

definition madvise_begun :: madvise_state where
  "madvise_begun = kprobe__do_madvise (ctx_of 0x2A00000007 100 0) madvise_args0 madvise_init"


text \<open>
  For sequences made of entry and return observations only: the number of submitted
  records whose \<^verbatim>\<open>latency_ns\<close> is not zero, and the number of return observations
  that found a record of their thread in \<^verbatim>\<open>connect_tracking\<close>.
\<close>

fun connect_entry_or_exit :: "connect_probe \<Rightarrow> bool" where
  "connect_entry_or_exit (TCP_V4_CONNECT a) = True"
| "connect_entry_or_exit TCP_V4_CONNECT_RETURN = True"
| "connect_entry_or_exit _ = False"

definition entry_exit_only :: "(connect_probe \<times> probe_ctx) list \<Rightarrow> bool" where
  "entry_exit_only obs = list_all (connect_entry_or_exit \<circ> fst) obs"

definition clock_readings :: "(connect_probe \<times> probe_ctx) list \<Rightarrow> u64 list" where
  "clock_readings obs = map (ktime_ns \<circ> snd) obs"

definition latency_records :: "connect_event list \<Rightarrow> nat" where
  "latency_records es = length (filter (\<lambda>e. latency_ns e \<noteq> 0) es)"

fun matched_exits :: "connect_state \<Rightarrow> (connect_probe \<times> probe_ctx) list \<Rightarrow> nat" where
  "matched_exits s [] = 0"
| "matched_exits s ((p, c) # obs) =
     (if p = TCP_V4_CONNECT_RETURN \<and> hash_lookup (connect_tracking s) (tid_of c) \<noteq> None
      then 1 else 0)
     + matched_exits (connect_fire s (p, c)) obs"

text \<open>
  \<open>started_before s T\<close>: the two tables have the same keys, and every stored start time
  is earlier than every clock reading in \<open>T\<close>.
\<close>

definition started_before :: "connect_state \<Rightarrow> u64 set \<Rightarrow> bool" where
  "started_before s T \<longleftrightarrow>
     fmdom (connect_start_times s) = fmdom (connect_tracking s) \<and>
     (\<forall>tid st. fmlookup (connect_start_times s) tid = Some st \<longrightarrow> (\<forall>t \<in> T. st < t))"

definition unique_pairs :: "(connect_probe \<times> probe_ctx) list" where
  "unique_pairs =
     [(TCP_V4_CONNECT args0, ctx_of 0x2A00000007 100 0),
      (TCP_V4_CONNECT args0, ctx_of 0x2A00000008 120 0),
      (TCP_V4_CONNECT_RETURN, ctx_of 0x2A00000007 250 0),
      (TCP_V4_CONNECT_RETURN, ctx_of 0x2A00000009 260 0),
      (TCP_V4_CONNECT_RETURN, ctx_of 0x2A00000008 300 (- 101))]"

definition same_tick :: "(connect_probe \<times> probe_ctx) list" where
  "same_tick =
     [(TCP_V4_CONNECT args0, ctx_of 0x2A00000007 100 0),
      (TCP_V4_CONNECT_RETURN, ctx_of 0x2A00000007 100 0)]"

section \<open>Facts about the tables\<close>

lemmas connect_branch_defs =
  CONNECT_ENTRY_def CONNECT_INVALID_ADDRLEN_def CONNECT_WRONG_FAMILY_def
  CONNECT_ROUTE_ERROR_def CONNECT_MULTICAST_BCAST_def CONNECT_NO_SRC_ADDR_def
  CONNECT_TS_RESET_def CONNECT_REPAIR_MODE_def CONNECT_HASH_ERROR_def
  CONNECT_FASTOPEN_DEFER_def CONNECT_TCP_CONNECT_ERR_def CONNECT_ENETUNREACH_def
  CONNECT_NEW_SPORT_def CONNECT_WRITE_SEQ_INIT_def CONNECT_SUCCESS_def
  CONNECT_SRC_BIND_FAIL_def CONNECT_PORT_EXHAUSTED_def CONNECT_ROUTE_LOOKUP_def
  CONNECT_PORT_ALLOC_def CONNECT_REGULAR_SYN_def CONNECT_ERROR_PATH_def

lemmas tcp_branch_defs =
  TCP_BRANCH_ENTRY_def TCP_BRANCH_NOT_FOR_HOST_def TCP_BRANCH_NO_SOCKET_def
  TCP_BRANCH_TIME_WAIT_def TCP_BRANCH_CHECKSUM_ERR_def TCP_BRANCH_LISTEN_def
  TCP_BRANCH_SOCKET_BUSY_def TCP_BRANCH_XFRM_DROP_def TCP_BRANCH_NEW_SYN_RECV_def
  TCP_BRANCH_PKT_TOO_SMALL_def TCP_BRANCH_MIN_TTL_DROP_def TCP_BRANCH_SOCKET_FILTER_def
  TCP_BRANCH_DO_RCV_CALL_def TCP_BRANCH_MD5_FAIL_def TCP_BRANCH_BACKLOG_ADD_def
  TCP_BRANCH_REQ_STOLEN_def TCP_BRANCH_LISTEN_DROP_def TCP_BRANCH_RST_SENT_def
  TCP_BRANCH_ESTABLISHED_def

lemmas connect_probe_defs =
  trace_invalid_addrlen_def trace_wrong_family_def trace_route_lookup_def
  trace_route_error_def trace_multicast_bcast_def trace_no_src_addr_def
  trace_src_bind_fail_def trace_port_alloc_def trace_hash_error_def
  trace_fastopen_defer_def trace_regular_syn_def trace_tcp_connect_err_def
  trace_enetunreach_def trace_new_sport_def trace_write_seq_init_def trace_error_path_def

lemmas rcv_probe_defs =
  trace_tcp_v4_rcv_def trace_not_for_host_def trace_no_socket_def trace_time_wait_def
  trace_checksum_error_def trace_listen_state_def trace_socket_busy_def
  trace_xfrm_policy_drop_def trace_new_syn_recv_def trace_pkt_too_small_def
  trace_min_ttl_drop_def trace_socket_filter_drop_def trace_do_rcv_call_def
  trace_md5_fail_def trace_backlog_add_def trace_req_stolen_def trace_listen_drop_def
  trace_rst_sent_def trace_established_def

lemmas hash_defs =
  hash_update_def hash_insert_def hash_lookup_def hash_delete_def hash_entries_def
  BPF_HASH_DEFAULT_SIZE_def fcard_fempty fcard_finsert_if

lemmas connect_eval =
  connect_run_def connect_run_from_def connect_init_def trace_tcp_v4_connect_def
  trace_tcp_v4_connect_return_def connect_probe_defs branch_probe_def hash_defs
  tid_of_def ctx_of_def args0_def Let_def

lemma hash_entries_update_le:
  "hash_entries m \<le> cap \<Longrightarrow> hash_entries (hash_update cap m k v) \<le> cap"
  by (auto simp: hash_update_def hash_entries_def fcard_finsert_if fmlookup_dom_iff)

lemma hash_entries_insert_le:
  "hash_entries m \<le> cap \<Longrightarrow> hash_entries (hash_insert cap m k v) \<le> cap"
  by (auto simp: hash_insert_def hash_entries_def fcard_finsert_if fmlookup_dom_iff)

lemma hash_entries_delete_le:
  "hash_entries (hash_delete m k) \<le> hash_entries m"
  by (simp add: hash_delete_def hash_entries_def fcard_fminus1_le)


section \<open>An invariant of the connect program\<close>

lemma tracked_init: "tracked P connect_init"
  by (simp add: tracked_def connect_init_def)

lemma tracked_entry:
  assumes "tracked P s"
    and "\<And>e. branch_type e = CONNECT_ENTRY \<Longrightarrow> tgid e = 0 \<Longrightarrow> P e"
  shows "tracked P (trace_tcp_v4_connect c a s)"
  using assms
  by (auto simp: tracked_def trace_tcp_v4_connect_def Let_def hash_update_def
        drop_bit_eq_zero_iff_not_bit_last split: if_splits)

lemma tracked_branch_probe:
  assumes "tracked P s"
    and "\<And>e x. P e \<Longrightarrow> P (e\<lparr>latency_ns := x\<rparr>)"
    and "\<And>e x. P e \<Longrightarrow> P (f (e\<lparr>ts_uptime_us := x\<rparr>))"
  shows "tracked P (branch_probe f c s)"
  using assms
  by (auto simp: tracked_def branch_probe_def Let_def hash_lookup_def split: option.splits if_splits)

lemma tracked_return:
  assumes "tracked P s"
    and "\<And>e x. P e \<Longrightarrow> P (e\<lparr>latency_ns := x\<rparr>)"
    and "\<And>e x y. P e \<Longrightarrow> P (e\<lparr>ts_uptime_us := x, error_code := y\<rparr>)"
    and "\<And>e x. P e \<Longrightarrow> P (e\<lparr>path_type := x\<rparr>)"
    and "\<And>e. P e \<Longrightarrow> P (e\<lparr>branch_type := CONNECT_SUCCESS, path_type := PATH_FAST\<rparr>)"
  shows "tracked P (trace_tcp_v4_connect_return c s)"
proof (cases "fmlookup (connect_tracking s) (tid_of c)")
  case None
  then show ?thesis
    using assms(1) by (simp add: trace_tcp_v4_connect_return_def hash_lookup_def)
next
  case (Some ev)
  let ?ts = "ktime_ns c"
  have Pev: "P ev" using assms(1) Some by (auto simp: tracked_def)
  define ev1 where "ev1 = (case fmlookup (connect_start_times s) (tid_of c) of
                      None \<Rightarrow> ev | Some start \<Rightarrow> ev\<lparr>latency_ns := ?ts - start\<rparr>)"
  have P1: "P ev1" using Pev assms(2) by (simp add: ev1_def split: option.splits)
  define ev2 where "ev2 = ev1\<lparr>ts_uptime_us := ?ts div 1000, error_code := ucast (regs_rc c)\<rparr>"
  have P2: "P ev2" using P1 assms(3) by (simp add: ev2_def)
  define ev3 where "ev3 = (if error_code ev2 = 0
                         then ev2\<lparr>branch_type := CONNECT_SUCCESS, path_type := PATH_FAST\<rparr>
                         else if path_type ev2 = 0 then ev2\<lparr>path_type := PATH_ERROR\<rparr>
                         else ev2)"
  have P3: "P ev3" using P2 assms(4,5) by (simp add: ev3_def)
  have ev: "connect_events (trace_tcp_v4_connect_return c s) = connect_events s @ [ev3]"
    using Some
    by (simp add: trace_tcp_v4_connect_return_def hash_lookup_def Let_def ev3_def ev2_def ev1_def
          split: option.splits)
  have tr: "connect_tracking (trace_tcp_v4_connect_return c s)
              = hash_delete (connect_tracking s) (tid_of c)"
    using Some
    by (simp add: trace_tcp_v4_connect_return_def hash_lookup_def Let_def split: option.splits)
  show ?thesis
    using assms(1) P3 unfolding tracked_def ev tr
    by (auto simp: hash_delete_def split: if_splits)
qed

lemma tracked_fire:
  assumes inv: "tracked P s"
    and lat: "\<And>e x. P e \<Longrightarrow> P (e\<lparr>latency_ns := x\<rparr>)"
    and ts: "\<And>e x. P e \<Longrightarrow> P (e\<lparr>ts_uptime_us := x\<rparr>)"
    and err: "\<And>e x. P e \<Longrightarrow> P (e\<lparr>error_code := x\<rparr>)"
    and path: "\<And>e x. P e \<Longrightarrow> P (e\<lparr>path_type := x\<rparr>)"
    and br: "\<And>e b. P e \<Longrightarrow> b \<in> connect_branch_enum \<Longrightarrow> P (e\<lparr>branch_type := b\<rparr>)"
    and ent: "\<And>e. branch_type e = CONNECT_ENTRY \<Longrightarrow> tgid e = 0 \<Longrightarrow> P e"
  shows "tracked P (connect_fire s ob)"
proof -
  obtain p c where ob: "ob = (p, c)" by (cases ob)
  have b1: "\<And>b e x. b \<in> connect_branch_enum \<Longrightarrow> P e \<Longrightarrow>
              P ((\<lambda>e. e\<lparr>branch_type := b\<rparr>) (e\<lparr>ts_uptime_us := x\<rparr>))"
    using ts br by simp
  have b2: "\<And>b q e x. b \<in> connect_branch_enum \<Longrightarrow> P e \<Longrightarrow>
              P ((\<lambda>e. e\<lparr>branch_type := b, path_type := q\<rparr>) (e\<lparr>ts_uptime_us := x\<rparr>))"
    using ts br path by simp
  have b3: "\<And>b q r e x. b \<in> connect_branch_enum \<Longrightarrow> P e \<Longrightarrow>
              P ((\<lambda>e. e\<lparr>branch_type := b, error_code := r, path_type := q\<rparr>) (e\<lparr>ts_uptime_us := x\<rparr>))"
    using ts br path err by simp
  have mem: "CONNECT_INVALID_ADDRLEN \<in> connect_branch_enum" "CONNECT_WRONG_FAMILY \<in> connect_branch_enum"
    "CONNECT_ROUTE_LOOKUP \<in> connect_branch_enum" "CONNECT_ROUTE_ERROR \<in> connect_branch_enum"
    "CONNECT_MULTICAST_BCAST \<in> connect_branch_enum" "CONNECT_NO_SRC_ADDR \<in> connect_branch_enum"
    "CONNECT_SRC_BIND_FAIL \<in> connect_branch_enum" "CONNECT_PORT_ALLOC \<in> connect_branch_enum"
    "CONNECT_HASH_ERROR \<in> connect_branch_enum" "CONNECT_FASTOPEN_DEFER \<in> connect_branch_enum"
    "CONNECT_REGULAR_SYN \<in> connect_branch_enum" "CONNECT_TCP_CONNECT_ERR \<in> connect_branch_enum"
    "CONNECT_ENETUNREACH \<in> connect_branch_enum" "CONNECT_NEW_SPORT \<in> connect_branch_enum"
    "CONNECT_WRITE_SEQ_INIT \<in> connect_branch_enum" "CONNECT_ERROR_PATH \<in> connect_branch_enum"
    "CONNECT_SUCCESS \<in> connect_branch_enum"
    by (simp_all add: connect_branch_enum_def)
  have bp1: "\<And>b. b \<in> connect_branch_enum \<Longrightarrow>
               tracked P (branch_probe (\<lambda>e. e\<lparr>branch_type := b\<rparr>) c s)"
    by (rule tracked_branch_probe [OF inv lat]) (use b1 in simp_all)
  have bp2: "\<And>b q. b \<in> connect_branch_enum \<Longrightarrow>
               tracked P (branch_probe (\<lambda>e. e\<lparr>branch_type := b, path_type := q\<rparr>) c s)"
    by (rule tracked_branch_probe [OF inv lat]) (use b2 in simp_all)
  have bp3: "\<And>b q r. b \<in> connect_branch_enum \<Longrightarrow>
               tracked P (branch_probe (\<lambda>e. e\<lparr>branch_type := b, error_code := r, path_type := q\<rparr>) c s)"
    by (rule tracked_branch_probe [OF inv lat]) (use b3 in simp_all)
  show ?thesis
  proof (cases p)
    case (TCP_V4_CONNECT a)
    then show ?thesis using ob inv ent by (simp add: tracked_entry)
  next
    case TCP_V4_CONNECT_RETURN
    have "tracked P (trace_tcp_v4_connect_return c s)"
      by (rule tracked_return [OF inv]) (use lat ts err path br mem in simp_all)
    then show ?thesis using ob TCP_V4_CONNECT_RETURN by simp
  qed (simp_all add: ob connect_probe_defs bp1 bp2 bp3 mem)
qed

lemma tracked_run_from:
  assumes "tracked P s"
    and "\<And>e x. P e \<Longrightarrow> P (e\<lparr>latency_ns := x\<rparr>)"
    and "\<And>e x. P e \<Longrightarrow> P (e\<lparr>ts_uptime_us := x\<rparr>)"
    and "\<And>e x. P e \<Longrightarrow> P (e\<lparr>error_code := x\<rparr>)"
    and "\<And>e x. P e \<Longrightarrow> P (e\<lparr>path_type := x\<rparr>)"
    and "\<And>e b. P e \<Longrightarrow> b \<in> connect_branch_enum \<Longrightarrow> P (e\<lparr>branch_type := b\<rparr>)"
    and "\<And>e. branch_type e = CONNECT_ENTRY \<Longrightarrow> tgid e = 0 \<Longrightarrow> P e"
  shows "tracked P (connect_run_from s obs)"
  using assms(1)
proof (induction obs arbitrary: s)
  case Nil
  then show ?case by (simp add: connect_run_from_def)
next
  case (Cons ob obs)
  have "tracked P (connect_fire s ob)"
    by (rule tracked_fire [OF Cons.prems]) (use assms(2-7) in blast)+
  from Cons.IH [OF this] show ?case by (simp add: connect_run_from_def)
qed

lemma connect_demo_emits: "connect_events (connect_run connect_demo) \<noteq> []"
  by (simp add: connect_demo_def connect_eval)

lemma rcv_demo_emits: "rcv_run rcv_demo \<noteq> []"
  by (simp add: rcv_demo_def rcv_run_def rcv_probe_defs)

section \<open>Branch outcomes stay inside their enumeration\<close>

lemma connect_branch_enum_bound: "b \<in> connect_branch_enum \<Longrightarrow> unat b \<le> 20"
  by (auto simp: connect_branch_enum_def connect_branch_defs)

lemma tcp_branch_enum_bound: "b \<in> tcp_branch_enum \<Longrightarrow> unat b \<le> 18"
  by (auto simp: tcp_branch_enum_def tcp_branch_defs)

lemma rcv_fire_enum:
  assumes "\<forall>r \<in> set out. tcp_branch_event.branch_type r \<in> tcp_branch_enum"
  shows "\<forall>r \<in> set (rcv_fire out ob). tcp_branch_event.branch_type r \<in> tcp_branch_enum"
proof -
  obtain p c where ob: "ob = (p, c)" by (cases ob)
  show ?thesis
    using assms unfolding ob
    by (cases p) (simp_all add: rcv_probe_defs tcp_branch_enum_def)
qed

lemma rcv_foldl_enum:
  "\<forall>r \<in> set out. tcp_branch_event.branch_type r \<in> tcp_branch_enum \<Longrightarrow>
   \<forall>r \<in> set (foldl rcv_fire out obs). tcp_branch_event.branch_type r \<in> tcp_branch_enum"
proof (induction obs arbitrary: out)
  case Nil
  then show ?case by simp
next
  case (Cons ob obs)
  from Cons.IH [OF rcv_fire_enum [OF Cons.prems]] show ?case by simp
qed

text \<open>
  C8. Whatever probes of the connect path fire, in whatever order and with whatever
  contexts, starting from empty tables, every record submitted to \<^verbatim>\<open>connect_events\<close>
  has a \<^verbatim>\<open>branch_type\<close> among the twenty-one \<^verbatim>\<open>CONNECT_*\<close> constants, that is a value
  from 0 to 20; and every record submitted by the receive-path program has a
  \<^verbatim>\<open>branch_type\<close> among the nineteen \<^verbatim>\<open>TCP_BRANCH_*\<close> constants, a value from 0 to 18.
  A record has a single \<^verbatim>\<open>branch_type\<close> field, so it carries exactly one outcome.
\<close>

theorem branch_outcome_in_enumeration:
  "(e \<in> set (connect_events (connect_run obs)) \<longrightarrow>
      branch_type e \<in> connect_branch_enum \<and> unat (branch_type e) \<le> 20) \<and>
   (r \<in> set (rcv_run robs) \<longrightarrow>
      tcp_branch_event.branch_type r \<in> tcp_branch_enum \<and>
      unat (tcp_branch_event.branch_type r) \<le> 18)"
proof (intro conjI impI)
  assume e: "e \<in> set (connect_events (connect_run obs))"
  have "tracked (\<lambda>e. branch_type e \<in> connect_branch_enum) (connect_run obs)"
    unfolding connect_run_def
    by (rule tracked_run_from [OF tracked_init]) (simp_all add: connect_branch_enum_def)
  with e show "branch_type e \<in> connect_branch_enum" by (simp add: tracked_def)
  then show "unat (branch_type e) \<le> 20" by (rule connect_branch_enum_bound)
next
  assume r: "r \<in> set (rcv_run robs)"
  have "\<forall>r \<in> set (foldl rcv_fire [] robs). tcp_branch_event.branch_type r \<in> tcp_branch_enum"
    by (rule rcv_foldl_enum) simp
  with r show "tcp_branch_event.branch_type r \<in> tcp_branch_enum" by (simp add: rcv_run_def)
  then show "unat (tcp_branch_event.branch_type r) \<le> 18" by (rule tcp_branch_enum_bound)
qed

theorem branch_outcome_in_enumeration_witness:
  "last (connect_events (connect_run connect_demo)) \<in> set (connect_events (connect_run connect_demo)) \<and>
   branch_type (last (connect_events (connect_run connect_demo))) \<in> connect_branch_enum \<and>
   unat (branch_type (last (connect_events (connect_run connect_demo)))) \<le> 20 \<and>
   last (rcv_run rcv_demo) \<in> set (rcv_run rcv_demo) \<and>
   tcp_branch_event.branch_type (last (rcv_run rcv_demo)) \<in> tcp_branch_enum \<and>
   unat (tcp_branch_event.branch_type (last (rcv_run rcv_demo))) \<le> 18"
proof -
  have m1: "last (connect_events (connect_run connect_demo)) \<in> set (connect_events (connect_run connect_demo))"
    using connect_demo_emits by simp
  have m2: "last (rcv_run rcv_demo) \<in> set (rcv_run rcv_demo)"
    using rcv_demo_emits by simp
  show ?thesis
    using m1 m2
      branch_outcome_in_enumeration [of "last (connect_events (connect_run connect_demo))"
        connect_demo "last (rcv_run rcv_demo)" rcv_demo]
    by blast
qed

section \<open>The process id of connect records\<close>

text \<open>
  C9. Every record submitted to \<^verbatim>\<open>connect_events\<close>, by the entry probe, by a probe
  inside the function or by the return probe, has \<^verbatim>\<open>tgid\<close> 0: the entry probe keeps
  only the low 32 bits of the thread/process word in \<^verbatim>\<open>tid\<close> and stores
  \<^verbatim>\<open>tid >> 32\<close>, and no later probe assigns the field. (The shift of a 32-bit value by
  32 is taken as the logical shift of the 32-bit word, which leaves no bit.)
\<close>

theorem connect_tgid_zero:
  "e \<in> set (connect_events (connect_run obs)) \<Longrightarrow> tgid e = 0"
proof -
  have "tracked (\<lambda>e. tgid e = 0) (connect_run obs)"
    unfolding connect_run_def by (rule tracked_run_from [OF tracked_init]) simp_all
  then show "e \<in> set (connect_events (connect_run obs)) \<Longrightarrow> tgid e = 0"
    by (simp add: tracked_def)
qed

theorem connect_tgid_zero_witness:
  "hd (connect_events (connect_run connect_demo)) \<in> set (connect_events (connect_run connect_demo)) \<and>
   tgid (hd (connect_events (connect_run connect_demo))) = 0 \<and>
   drop_bit 32 (cur_pid_tgid (snd (hd connect_demo))) = 42"
proof -
  have m: "hd (connect_events (connect_run connect_demo)) \<in> set (connect_events (connect_run connect_demo))"
    using connect_demo_emits by simp
  have "drop_bit 32 (cur_pid_tgid (snd (hd connect_demo))) = 42"
    by (simp add: connect_demo_def ctx_of_def drop_bit_eq_div)
  with m connect_tgid_zero [OF m] show ?thesis by simp
qed

section \<open>An observation without a record\<close>

lemma branch_probe_skip:
  "hash_lookup (connect_tracking s) (tid_of c) = None \<Longrightarrow> branch_probe f c s = s"
  by (simp add: branch_probe_def)

lemma connect_fire_skip:
  assumes "hash_lookup (connect_tracking s) (tid_of c) = None" and "\<not> connect_entry_probe p"
  shows "connect_fire s (p, c) = s"
  using assms
  by (cases p) (simp_all add: connect_probe_defs branch_probe_skip trace_tcp_v4_connect_return_def)

text \<open>
  C4. When the table holds no record under the key of the observation, the handler
  changes nothing: the tables are the same and no record is submitted. This holds for
  every probe inside \<^verbatim>\<open>tcp_v4_connect\<close> and for its return probe, for the page-fault
  return probe, for the \<^verbatim>\<open>kmem:rss_stat\<close> tracepoint, for the zswap store return
  probe and for both madvise return probes. Each of these handlers ends in
  \<^verbatim>\<open>return 0\<close> on that path; the model has no error result, the unchanged state is the
  whole outcome.
\<close>

theorem missing_record_is_silent_skip:
  "(hash_lookup (connect_tracking s) (tid_of c) = None \<and> \<not> connect_entry_probe p \<longrightarrow>
      connect_fire s (p, c) = s) \<and>
   (hash_lookup (fault_entry fs) (ucast (cur_pid_tgid c)) = None \<longrightarrow>
      trace_handle_mm_fault_return k c fs = fs) \<and>
   (hash_lookup (rss_stat_hash rs) (ucast (cur_pid_tgid c)) = None \<longrightarrow>
      tracepoint__kmem__rss_stat c m sz rs = rs) \<and>
   (hash_lookup (stores zs) (cur_pid_tgid c) = None \<longrightarrow>
      trace_zswap_store_return c zs = zs) \<and>
   (hash_lookup (madvise_hash ms) (ucast (cur_pid_tgid c)) = None \<longrightarrow>
      kretprobe__do_madvise c ms = ms \<and> madvise_bpf_kretprobe__do_madvise c ms = ms)"
  by (auto simp: connect_fire_skip trace_handle_mm_fault_return_def tracepoint__kmem__rss_stat_def
      trace_zswap_store_return_def kretprobe__do_madvise_def madvise_bpf_kretprobe__do_madvise_def
      hash_lookup_def hash_delete_def fmdrop_idle fmdom_notI)

theorem missing_record_is_silent_skip_witness:
  "hash_lookup (connect_tracking other_thread_connecting) (tid_of (ctx_of 0x2A00000007 100 0)) = None \<and>
   \<not> connect_entry_probe INVALID_ADDRLEN \<and>
   connect_fire other_thread_connecting (INVALID_ADDRLEN, ctx_of 0x2A00000007 100 0)
     = other_thread_connecting \<and>
   hash_lookup (fault_entry fault_init) (ucast (cur_pid_tgid (ctx_of 0x2A00000007 100 0))) = None \<and>
   trace_handle_mm_fault_return fault_consts0 (ctx_of 0x2A00000007 100 0) fault_init = fault_init \<and>
   hash_lookup (rss_stat_hash rss_init) (ucast (cur_pid_tgid (ctx_of 0x2A00000007 100 0))) = None \<and>
   tracepoint__kmem__rss_stat (ctx_of 0x2A00000007 100 0) 1 4096 rss_init = rss_init \<and>
   hash_lookup (stores zswap_init) (cur_pid_tgid (ctx_of 0x2A00000007 100 0)) = None \<and>
   trace_zswap_store_return (ctx_of 0x2A00000007 100 0) zswap_init = zswap_init \<and>
   hash_lookup (madvise_hash madvise_init) (ucast (cur_pid_tgid (ctx_of 0x2A00000007 100 0))) = None \<and>
   kretprobe__do_madvise (ctx_of 0x2A00000007 100 0) madvise_init = madvise_init \<and>
   madvise_bpf_kretprobe__do_madvise (ctx_of 0x2A00000007 100 0) madvise_init = madvise_init"
proof -
  have h1: "hash_lookup (connect_tracking other_thread_connecting) (tid_of (ctx_of 0x2A00000007 100 0)) = None"
    by (simp add: other_thread_connecting_def connect_eval)
  have h2: "\<not> connect_entry_probe INVALID_ADDRLEN" by simp
  have h3: "hash_lookup (fault_entry fault_init) (ucast (cur_pid_tgid (ctx_of 0x2A00000007 100 0))) = None"
    by (simp add: fault_init_def hash_lookup_def)
  have h4: "hash_lookup (rss_stat_hash rss_init) (ucast (cur_pid_tgid (ctx_of 0x2A00000007 100 0))) = None"
    by (simp add: rss_init_def hash_lookup_def)
  have h5: "hash_lookup (stores zswap_init) (cur_pid_tgid (ctx_of 0x2A00000007 100 0)) = None"
    by (simp add: zswap_init_def hash_lookup_def)
  have h6: "hash_lookup (madvise_hash madvise_init) (ucast (cur_pid_tgid (ctx_of 0x2A00000007 100 0))) = None"
    by (simp add: madvise_init_def hash_lookup_def)
  show ?thesis
    using h1 h2 h3 h4 h5 h6
      missing_record_is_silent_skip [of other_thread_connecting "ctx_of 0x2A00000007 100 0"
        INVALID_ADDRLEN fault_init fault_consts0 rss_init 1 4096 zswap_init madvise_init]
    by blast
qed

section \<open>Drop reasons of the receive path\<close>

text \<open>
  C5. The handler of the listen overflow/drop branch submits
  \<^verbatim>\<open>TCP_BRANCH_LISTEN_DROP\<close> with \<^verbatim>\<open>drop_reason\<close> 0, the value left by the zero
  initialiser, whereas the other handlers of drop branches store a reason that is not
  zero, \<^verbatim>\<open>SKB_DROP_REASON_NOT_SPECIFIED\<close> where the kernel names none.
\<close>

theorem listen_drop_without_reason:
  "tcp_branch_event.branch_type (last (trace_listen_drop c out)) = TCP_BRANCH_LISTEN_DROP \<and>
   drop_reason (last (trace_listen_drop c out)) = 0 \<and>
   drop_reason (last (trace_xfrm_policy_drop c out)) = SKB_DROP_REASON_XFRM_POLICY \<and>
   drop_reason (last (trace_min_ttl_drop c out)) = SKB_DROP_REASON_TCP_MINTTL \<and>
   drop_reason (last (trace_socket_filter_drop c out)) = SKB_DROP_REASON_SOCKET_FILTER \<and>
   drop_reason (last (trace_not_for_host c out)) = SKB_DROP_REASON_NOT_SPECIFIED \<and>
   drop_reason (last (trace_md5_fail c out)) = SKB_DROP_REASON_NOT_SPECIFIED \<and>
   SKB_DROP_REASON_NOT_SPECIFIED \<noteq> 0"
  by (simp add: rcv_probe_defs branch_event_def tcp_branch_event_zero_def
      SKB_DROP_REASON_NOT_SPECIFIED_def)

text \<open>
  The branch and the drop reason each handler of the receive path submits, in the order
  of the branch constants.
\<close>

lemma receive_reason_table:
  "map (\<lambda>p. (unat (tcp_branch_event.branch_type (last (rcv_fire out (p, c)))),
              unat (drop_reason (last (rcv_fire out (p, c))))))
     [RCV_ENTRY h, NOT_FOR_HOST, NO_SOCKET, TIME_WAIT, CHECKSUM_ERROR, LISTEN_STATE, SOCKET_BUSY,
      XFRM_POLICY_DROP, NEW_SYN_RECV, PKT_TOO_SMALL, MIN_TTL_DROP, SOCKET_FILTER_DROP,
      DO_RCV_CALL, MD5_FAIL, BACKLOG_ADD, REQ_STOLEN, LISTEN_DROP, RST_SENT, ESTABLISHED]
   = [(0, 0), (1, 2), (2, 3), (3, 0), (4, 5), (5, 0), (6, 0), (7, 14), (8, 0), (9, 4), (10, 70),
      (11, 6), (12, 0), (13, 2), (14, 0), (15, 0), (16, 0), (17, 0), (18, 0)]"
  by (simp add: rcv_probe_defs branch_event_def tcp_branch_event_zero_def tcp_branch_defs
      SKB_DROP_REASON_NOT_SPECIFIED_def SKB_DROP_REASON_NO_SOCKET_def
      SKB_DROP_REASON_PKT_TOO_SMALL_def SKB_DROP_REASON_TCP_CSUM_def
      SKB_DROP_REASON_SOCKET_FILTER_def SKB_DROP_REASON_XFRM_POLICY_def
      SKB_DROP_REASON_TCP_MINTTL_def)

section \<open>The tables stay within their declared size\<close>

lemma word_of_nat_inj_below:
  "n \<le> 2 ^ 32 \<Longrightarrow> inj_on (word_of_nat :: nat \<Rightarrow> u32) {0..<n}"
  by (rule inj_on_subset [OF inj_on_word_of_nat]) auto

lemma hash_entries_full_table:
  assumes "n \<le> 2 ^ 32"
  shows "hash_entries (full_table n v) = n"
proof -
  have "map fst (map (\<lambda>i. (word_of_nat i :: u32, v)) [0..<n]) = map word_of_nat [0..<n]"
    by (simp add: comp_def)
  then have "hash_entries (full_table n v) = card ((word_of_nat :: nat \<Rightarrow> u32) ` {0..<n})"
    by (simp add: hash_entries_def full_table_def fcard.rep_eq fset_of_list.rep_eq)
  also have "\<dots> = card {0..<n}"
    by (rule card_image [OF word_of_nat_inj_below [OF assms]])
  finally show ?thesis by simp
qed

lemma full_table_lookup_outside:
  assumes "n \<le> k" and "k < 2 ^ 32"
  shows "fmlookup (full_table n v) (word_of_nat k :: u32) = None"
proof -
  have "(word_of_nat k :: u32) \<notin> word_of_nat ` {0..<n}"
  proof
    assume "(word_of_nat k :: u32) \<in> word_of_nat ` {0..<n}"
    then obtain i where i: "i < n" "(word_of_nat k :: u32) = word_of_nat i" by auto
    have "inj_on (word_of_nat :: nat \<Rightarrow> u32) {0..<2 ^ 32}"
      using inj_on_word_of_nat [where 'a = 32] by simp
    from inj_onD [OF this i(2)] i(1) assms show False by simp
  qed
  then have "(word_of_nat k :: u32) |\<notin>| fmdom (full_table n v)"
    by (simp add: full_table_def fset_of_list.rep_eq comp_def)
  then show ?thesis by (rule fmdom_notD)
qed

lemma madvise_fire_bounded:
  "hash_entries (madvise_hash s) \<le> MADVISE_HASH_SIZE \<Longrightarrow>
   hash_entries (madvise_hash (madvise_fire s ob)) \<le> MADVISE_HASH_SIZE"
proof (cases ob)
  case (MADVISE_ENTRY c a)
  assume "hash_entries (madvise_hash s) \<le> MADVISE_HASH_SIZE"
  then show ?thesis
    using MADVISE_ENTRY by (simp add: kprobe__do_madvise_def Let_def hash_entries_insert_le)
next
  case (MADVISE_RETURN c)
  assume "hash_entries (madvise_hash s) \<le> MADVISE_HASH_SIZE"
  then show ?thesis
    using MADVISE_RETURN hash_entries_delete_le [of "madvise_hash s" "ucast (cur_pid_tgid c)"]
    by (simp add: kretprobe__do_madvise_def Let_def)
qed

lemma madvise_foldl_bounded:
  "hash_entries (madvise_hash s) \<le> MADVISE_HASH_SIZE \<Longrightarrow>
   hash_entries (madvise_hash (foldl madvise_fire s obs)) \<le> MADVISE_HASH_SIZE"
  by (induction obs arbitrary: s) (simp_all add: madvise_fire_bounded)

lemma fault_fire_bounded:
  "hash_entries (fault_entry s) \<le> FAULT_ENTRY_SIZE \<Longrightarrow>
   hash_entries (fault_entry (fault_fire k s ob)) \<le> FAULT_ENTRY_SIZE"
proof (cases ob)
  case (FAULT_ENTRY c a f)
  assume "hash_entries (fault_entry s) \<le> FAULT_ENTRY_SIZE"
  then show ?thesis
    using FAULT_ENTRY by (simp add: trace_handle_mm_fault_entry_def Let_def hash_entries_update_le)
next
  case (FAULT_RETURN c)
  assume "hash_entries (fault_entry s) \<le> FAULT_ENTRY_SIZE"
  then show ?thesis
    using FAULT_RETURN hash_entries_delete_le [of "fault_entry s" "ucast (cur_pid_tgid c)"]
    by (simp add: trace_handle_mm_fault_return_def Let_def hash_lookup_def split: option.splits)
qed

lemma fault_foldl_bounded:
  "hash_entries (fault_entry s) \<le> FAULT_ENTRY_SIZE \<Longrightarrow>
   hash_entries (fault_entry (foldl (fault_fire k) s obs)) \<le> FAULT_ENTRY_SIZE"
  by (induction obs arbitrary: s) (simp_all add: fault_fire_bounded)

text \<open>
  C6. Whatever entry and return observations fire, in whatever order, starting from
  empty tables, \<^verbatim>\<open>madvise_hash\<close> never holds more than its 32768 entries and
  \<^verbatim>\<open>fault_entry\<close> never more than its 10240. On a full table the outcome of an entry
  is fixed: the madvise entry probe (\<^verbatim>\<open>insert\<close>) leaves the table as it is, and the
  page-fault entry probe (\<^verbatim>\<open>update\<close>) leaves it as it is when the key is new. The
  bound is the size given to \<^verbatim>\<open>BPF_HASH\<close>, kept by the kernel table as modelled by
  \<open>hash_update\<close> and \<open>hash_insert\<close>.
\<close>

theorem correlation_store_bounded:
  "hash_entries (madvise_hash (madvise_run obs)) \<le> 32768 \<and>
   hash_entries (fault_entry (fault_run k fobs)) \<le> 10240 \<and>
   (hash_entries (madvise_hash ms) = 32768 \<longrightarrow>
      madvise_hash (kprobe__do_madvise c a ms) = madvise_hash ms) \<and>
   (hash_entries (fault_entry fs) = 10240 \<and>
    hash_lookup (fault_entry fs) (ucast (cur_pid_tgid c)) = None \<longrightarrow>
      fault_entry (trace_handle_mm_fault_entry c fa ff fs) = fault_entry fs)"
proof (intro conjI impI)
  have "hash_entries (madvise_hash (foldl madvise_fire madvise_init obs)) \<le> MADVISE_HASH_SIZE"
    by (rule madvise_foldl_bounded) (simp add: madvise_init_def hash_entries_def fcard_fempty)
  then show "hash_entries (madvise_hash (madvise_run obs)) \<le> 32768"
    by (simp add: madvise_run_def MADVISE_HASH_SIZE_def)
  have "hash_entries (fault_entry (foldl (fault_fire k) fault_init fobs)) \<le> FAULT_ENTRY_SIZE"
    by (rule fault_foldl_bounded) (simp add: fault_init_def hash_entries_def fcard_fempty)
  then show "hash_entries (fault_entry (fault_run k fobs)) \<le> 10240"
    by (simp add: fault_run_def FAULT_ENTRY_SIZE_def)
next
  assume "hash_entries (madvise_hash ms) = 32768"
  then show "madvise_hash (kprobe__do_madvise c a ms) = madvise_hash ms"
    by (simp add: kprobe__do_madvise_def hash_insert_def MADVISE_HASH_SIZE_def Let_def)
next
  assume "hash_entries (fault_entry fs) = 10240 \<and>
    hash_lookup (fault_entry fs) (ucast (cur_pid_tgid c)) = None"
  then show "fault_entry (trace_handle_mm_fault_entry c fa ff fs) = fault_entry fs"
    by (simp add: trace_handle_mm_fault_entry_def hash_update_def hash_lookup_def
        FAULT_ENTRY_SIZE_def Let_def)
qed

theorem correlation_store_bounded_witness:
  "hash_entries (madvise_hash madvise_full) = 32768 \<and>
   madvise_hash (kprobe__do_madvise (ctx_of 40000 500 0) madvise_args0 madvise_full)
     = madvise_hash madvise_full \<and>
   hash_entries (fault_entry fault_full) = 10240 \<and>
   hash_lookup (fault_entry fault_full) (ucast (cur_pid_tgid (ctx_of 40000 500 0))) = None \<and>
   fault_entry (trace_handle_mm_fault_entry (ctx_of 40000 500 0) 0x1000 1 fault_full)
     = fault_entry fault_full"
proof -
  have h1: "hash_entries (madvise_hash madvise_full) = 32768"
    by (simp add: madvise_full_def hash_entries_full_table)
  have h2: "hash_entries (fault_entry fault_full) = 10240"
    by (simp add: fault_full_def hash_entries_full_table)
  have "fmlookup (full_table 10240 fault_info0) (word_of_nat 40000 :: u32) = None"
    by (rule full_table_lookup_outside) simp_all
  then have h3: "hash_lookup (fault_entry fault_full) (ucast (cur_pid_tgid (ctx_of 40000 500 0))) = None"
    by (simp add: fault_full_def hash_lookup_def ctx_of_def)
  show ?thesis
    using h1 h2 h3
      correlation_store_bounded [of "[]" k "[]" madvise_full "ctx_of 40000 500 0" madvise_args0
        fault_full "0x1000" 1]
    by blast
qed

section \<open>The page-fault return probe\<close>

lemmas fault_eval =
  fault_demo_def fault_init_def trace_handle_mm_fault_entry_def trace_handle_mm_fault_return_def
  fault_consts0_def FAULT_ENTRY_SIZE_def VM_FAULT_ERROR_def VM_FAULT_MAJOR_def hash_defs
  ctx_of_def Let_def

text \<open>
  C10, as the code has it. The return probe submits a record exactly when
  \<^verbatim>\<open>fault_entry\<close> holds a record for the thread and the return value has no
  \<^verbatim>\<open>VM_FAULT_ERROR\<close> bit; the records submitted before stay as they are; afterwards the
  thread has no record in the table, whether or not a record was submitted; and the
  submitted timestamp is the stored entry time divided by 1000, whatever the clock reads
  at the return.
\<close>

theorem fault_return_emits_iff_record_and_no_error:
  "(page_fault_events (trace_handle_mm_fault_return k c s) \<noteq> page_fault_events s \<longleftrightarrow>
      hash_lookup (fault_entry s) (ucast (cur_pid_tgid c)) \<noteq> None \<and>
      regs_rc c AND VM_FAULT_ERROR = 0) \<and>
   take (length (page_fault_events s)) (page_fault_events (trace_handle_mm_fault_return k c s))
     = page_fault_events s \<and>
   map page_fault_event_t.ts_uptime_us
     (drop (length (page_fault_events s)) (page_fault_events (trace_handle_mm_fault_return k c s)))
     = (case hash_lookup (fault_entry s) (ucast (cur_pid_tgid c)) of
          None \<Rightarrow> []
        | Some info \<Rightarrow> if regs_rc c AND VM_FAULT_ERROR = 0 then [ts_start info div 1000] else []) \<and>
   hash_lookup (fault_entry (trace_handle_mm_fault_return k c s)) (ucast (cur_pid_tgid c)) = None \<and>
   trace_handle_mm_fault_return k (c\<lparr>ktime_ns := t\<rparr>) s = trace_handle_mm_fault_return k c s"
proof (cases "hash_lookup (fault_entry s) (ucast (cur_pid_tgid c))")
  case None
  then show ?thesis
    by (simp add: trace_handle_mm_fault_return_def)
next
  case (Some info)
  then show ?thesis
    by (simp add: trace_handle_mm_fault_return_def hash_lookup_def hash_delete_def Let_def)
qed

theorem fault_return_emits_iff_record_and_no_error_witness:
  "hash_lookup (fault_entry fault_demo) (ucast (cur_pid_tgid (ctx_of 0x2A00000007 9000 0)))
     = Some \<lparr>page_fault_info_t.pid = 7, page_fault_info_t.address = 0x7F0000001000, flags = 1,
             ts_start = 5000\<rparr> \<and>
   regs_rc (ctx_of 0x2A00000007 9000 0) AND VM_FAULT_ERROR = 0 \<and>
   page_fault_events (trace_handle_mm_fault_return fault_consts0 (ctx_of 0x2A00000007 9000 0) fault_demo)
     \<noteq> page_fault_events fault_demo \<and>
   map page_fault_event_t.ts_uptime_us
     (page_fault_events (trace_handle_mm_fault_return fault_consts0 (ctx_of 0x2A00000007 9000 0) fault_demo))
     = [5] \<and>
   hash_lookup
     (fault_entry (trace_handle_mm_fault_return fault_consts0 (ctx_of 0x2A00000007 9000 0) fault_demo))
     (ucast (cur_pid_tgid (ctx_of 0x2A00000007 9000 0))) = None \<and>
   regs_rc (ctx_of 0x2A00000007 9000 1) AND VM_FAULT_ERROR \<noteq> 0 \<and>
   page_fault_events (trace_handle_mm_fault_return fault_consts0 (ctx_of 0x2A00000007 9000 1) fault_demo)
     = page_fault_events fault_demo \<and>
   hash_lookup
     (fault_entry (trace_handle_mm_fault_return fault_consts0 (ctx_of 0x2A00000007 9000 1) fault_demo))
     (ucast (cur_pid_tgid (ctx_of 0x2A00000007 9000 1))) = None"
proof -
  let ?info = "\<lparr>page_fault_info_t.pid = 7, page_fault_info_t.address = 0x7F0000001000, flags = 1,
             ts_start = 5000\<rparr>"
  have h0: "hash_lookup (fault_entry fault_demo) (ucast (cur_pid_tgid (ctx_of 0x2A00000007 9000 0)))
     = Some ?info"
    by (simp add: fault_eval)
  have h1: "hash_lookup (fault_entry fault_demo) (ucast (cur_pid_tgid (ctx_of 0x2A00000007 9000 1)))
     = Some ?info"
    by (simp add: fault_eval)
  have ok: "regs_rc (ctx_of 0x2A00000007 9000 0) AND VM_FAULT_ERROR = 0"
    by (simp add: ctx_of_def VM_FAULT_ERROR_def)
  have err: "regs_rc (ctx_of 0x2A00000007 9000 1) AND VM_FAULT_ERROR \<noteq> 0"
    by (simp add: ctx_of_def VM_FAULT_ERROR_def)
  have e0: "page_fault_events fault_demo = []"
    by (simp add: fault_eval)
  show ?thesis
    using h0 h1 ok err e0
      fault_return_emits_iff_record_and_no_error
        [of fault_consts0 "ctx_of 0x2A00000007 9000 0" fault_demo 0]
      fault_return_emits_iff_record_and_no_error
        [of fault_consts0 "ctx_of 0x2A00000007 9000 1" fault_demo 0]
    by auto
qed

text \<open>
  Without an entry record the probe returns at once: thread 7 returns with no error bit
  from empty tables and nothing is submitted.
\<close>

theorem fault_return_without_record_emits_nothing:
  "regs_rc (ctx_of 0x2A00000007 9000 0) AND VM_FAULT_ERROR = 0 \<and>
   hash_lookup (fault_entry fault_init) (ucast (cur_pid_tgid (ctx_of 0x2A00000007 9000 0))) = None \<and>
   page_fault_events (trace_handle_mm_fault_return fault_consts0 (ctx_of 0x2A00000007 9000 0) fault_init)
     = page_fault_events fault_init"
  by (simp add: fault_init_def trace_handle_mm_fault_return_def hash_lookup_def ctx_of_def
      VM_FAULT_ERROR_def)

text \<open>
  The same happens on a run of the program itself: on a full table the entry of a new
  thread is refused, and its successful return then submits nothing.
\<close>

lemma fault_return_after_refused_entry:
  "page_fault_events
     (trace_handle_mm_fault_return fault_consts0 (ctx_of 40000 9000 0)
        (trace_handle_mm_fault_entry (ctx_of 40000 5000 0) 0x1000 1 fault_full))
   = page_fault_events fault_full"
proof -
  have absent: "fmlookup (full_table 10240 fault_info0) (word_of_nat 40000 :: u32) = None"
    by (rule full_table_lookup_outside) simp_all
  have full: "hash_entries (full_table 10240 fault_info0 :: (u32, page_fault_info_t) bpf_hash) = 10240"
    by (simp add: hash_entries_full_table)
  have refused: "trace_handle_mm_fault_entry (ctx_of 40000 5000 0) 0x1000 1 fault_full = fault_full"
    using absent full
    by (simp add: trace_handle_mm_fault_entry_def fault_full_def hash_update_def ctx_of_def
        FAULT_ENTRY_SIZE_def Let_def)
  have "hash_lookup (fault_entry fault_full) (ucast (cur_pid_tgid (ctx_of 40000 9000 0))) = None"
    using absent by (simp add: fault_full_def hash_lookup_def ctx_of_def)
  then show ?thesis
    unfolding refused by (simp add: trace_handle_mm_fault_return_def)
qed

lemma hash_lookup_delete: "hash_lookup (hash_delete m k) k = None"
  by (simp add: hash_lookup_def hash_delete_def)

section \<open>A return observation with a live record\<close>

lemma zswap_return_live:
  assumes "hash_lookup (stores zs) (cur_pid_tgid c) = Some start" and "\<not> IS_ERR (regs_rc c)"
  shows "trace_zswap_store_return c zs =
           \<lparr>stores = hash_delete (stores zs) (cur_pid_tgid c),
            zswap_store_events = zswap_store_events zs @
              [\<lparr>zswap_event_t.pid = ucast (cur_pid_tgid c),
                zswap_event_t.tgid = ucast (drop_bit 32 (cur_pid_tgid c)),
                start_ts = start, end_ts = ktime_ns c\<rparr>]\<rparr>"
  using assms by (simp add: trace_zswap_store_return_def Let_def)

lemma connect_return_live:
  assumes "hash_lookup (connect_tracking s) (tid_of c) = Some ev"
  shows "\<exists>e. connect_events (trace_tcp_v4_connect_return c s) = connect_events s @ [e] \<and>
             pid e = pid ev \<and> tgid e = tgid ev \<and> saddr e = saddr ev \<and> daddr e = daddr ev \<and>
             sport e = sport ev \<and> dport e = dport ev \<and> comm e = comm ev \<and>
             ts_uptime_us e = ktime_ns c div 1000 \<and> error_code e = ucast (regs_rc c) \<and>
             latency_ns e = (case hash_lookup (connect_start_times s) (tid_of c) of
                               None \<Rightarrow> latency_ns ev | Some t0 \<Rightarrow> ktime_ns c - t0)"
    and "connect_tracking (trace_tcp_v4_connect_return c s) = hash_delete (connect_tracking s) (tid_of c)"
    and "hash_lookup (connect_start_times (trace_tcp_v4_connect_return c s)) (tid_of c) = None"
  using assms
  by (auto simp: trace_tcp_v4_connect_return_def Let_def hash_lookup_delete split: option.splits)

lemma zswap_return_absent:
  "hash_lookup (stores zs) (cur_pid_tgid c) = None \<Longrightarrow> trace_zswap_store_return c zs = zs"
  by (simp add: trace_zswap_store_return_def)

lemma connect_return_absent:
  "hash_lookup (connect_tracking s) (tid_of c) = None \<Longrightarrow> trace_tcp_v4_connect_return c s = s"
  by (simp add: trace_tcp_v4_connect_return_def)

lemma madvise_bpf_return_absent:
  "hash_lookup (madvise_hash ms) (ucast (cur_pid_tgid c)) = None \<Longrightarrow>
   madvise_bpf_kretprobe__do_madvise c ms = ms"
  by (simp add: madvise_bpf_kretprobe__do_madvise_def)

text \<open>
  C2, as the code has it. A return observation whose key has a live record and whose
  return value passes the guard of its handler (not an error pointer for the zswap store
  probe, zero for madvise.bpf.c, any value for \<^verbatim>\<open>tcp_v4_connect\<close>) submits the record
  built from the stored one and removes it from the table; a second return observation
  with the same key then changes nothing.
\<close>

theorem exit_emits_and_removes:
  "(hash_lookup (stores zs) (cur_pid_tgid c) = Some start \<and> \<not> IS_ERR (regs_rc c) \<longrightarrow>
      zswap_store_events (trace_zswap_store_return c zs) =
        zswap_store_events zs @
          [\<lparr>zswap_event_t.pid = ucast (cur_pid_tgid c),
            zswap_event_t.tgid = ucast (drop_bit 32 (cur_pid_tgid c)),
            start_ts = start, end_ts = ktime_ns c\<rparr>] \<and>
      hash_lookup (stores (trace_zswap_store_return c zs)) (cur_pid_tgid c) = None \<and>
      (cur_pid_tgid c' = cur_pid_tgid c \<longrightarrow>
         trace_zswap_store_return c' (trace_zswap_store_return c zs) = trace_zswap_store_return c zs)) \<and>
   (hash_lookup (connect_tracking s) (tid_of k) = Some ev \<longrightarrow>
      (\<exists>e. connect_events (trace_tcp_v4_connect_return k s) = connect_events s @ [e] \<and>
           pid e = pid ev \<and> tgid e = tgid ev \<and> saddr e = saddr ev \<and> daddr e = daddr ev \<and>
           sport e = sport ev \<and> dport e = dport ev \<and> comm e = comm ev \<and>
           ts_uptime_us e = ktime_ns k div 1000 \<and> error_code e = ucast (regs_rc k) \<and>
           latency_ns e = (case hash_lookup (connect_start_times s) (tid_of k) of
                             None \<Rightarrow> latency_ns ev | Some t0 \<Rightarrow> ktime_ns k - t0)) \<and>
      hash_lookup (connect_tracking (trace_tcp_v4_connect_return k s)) (tid_of k) = None \<and>
      hash_lookup (connect_start_times (trace_tcp_v4_connect_return k s)) (tid_of k) = None \<and>
      (tid_of k' = tid_of k \<longrightarrow>
         trace_tcp_v4_connect_return k' (trace_tcp_v4_connect_return k s)
           = trace_tcp_v4_connect_return k s)) \<and>
   (hash_lookup (madvise_hash ms) (ucast (cur_pid_tgid m)) = Some d \<and> (ucast (regs_rc m) :: s32) = 0 \<longrightarrow>
      madvise_output (madvise_bpf_kretprobe__do_madvise m ms) = madvise_output ms @ [d] \<and>
      hash_lookup (madvise_hash (madvise_bpf_kretprobe__do_madvise m ms)) (ucast (cur_pid_tgid m)) = None \<and>
      (cur_pid_tgid m' = cur_pid_tgid m \<longrightarrow>
         madvise_bpf_kretprobe__do_madvise m' (madvise_bpf_kretprobe__do_madvise m ms)
           = madvise_bpf_kretprobe__do_madvise m ms))"
proof (intro conjI impI)
  assume a: "hash_lookup (stores zs) (cur_pid_tgid c) = Some start \<and> \<not> IS_ERR (regs_rc c)"
  then have eq: "trace_zswap_store_return c zs =
           \<lparr>stores = hash_delete (stores zs) (cur_pid_tgid c),
            zswap_store_events = zswap_store_events zs @
              [\<lparr>zswap_event_t.pid = ucast (cur_pid_tgid c),
                zswap_event_t.tgid = ucast (drop_bit 32 (cur_pid_tgid c)),
                start_ts = start, end_ts = ktime_ns c\<rparr>]\<rparr>"
    by (simp add: zswap_return_live)
  show "zswap_store_events (trace_zswap_store_return c zs) =
        zswap_store_events zs @
          [\<lparr>zswap_event_t.pid = ucast (cur_pid_tgid c),
            zswap_event_t.tgid = ucast (drop_bit 32 (cur_pid_tgid c)),
            start_ts = start, end_ts = ktime_ns c\<rparr>]"
    by (simp add: eq)
  show gone: "hash_lookup (stores (trace_zswap_store_return c zs)) (cur_pid_tgid c) = None"
    by (simp add: eq hash_lookup_delete)
  show "trace_zswap_store_return c' (trace_zswap_store_return c zs) = trace_zswap_store_return c zs"
    if "cur_pid_tgid c' = cur_pid_tgid c"
    using gone that by (simp add: zswap_return_absent)
next
  assume a: "hash_lookup (connect_tracking s) (tid_of k) = Some ev"
  from connect_return_live(1) [OF a]
  show "\<exists>e. connect_events (trace_tcp_v4_connect_return k s) = connect_events s @ [e] \<and>
           pid e = pid ev \<and> tgid e = tgid ev \<and> saddr e = saddr ev \<and> daddr e = daddr ev \<and>
           sport e = sport ev \<and> dport e = dport ev \<and> comm e = comm ev \<and>
           ts_uptime_us e = ktime_ns k div 1000 \<and> error_code e = ucast (regs_rc k) \<and>
           latency_ns e = (case hash_lookup (connect_start_times s) (tid_of k) of
                             None \<Rightarrow> latency_ns ev | Some t0 \<Rightarrow> ktime_ns k - t0)"
    by blast
  show gone: "hash_lookup (connect_tracking (trace_tcp_v4_connect_return k s)) (tid_of k) = None"
    using a by (simp add: connect_return_live(2) hash_lookup_delete)
  show "hash_lookup (connect_start_times (trace_tcp_v4_connect_return k s)) (tid_of k) = None"
    using a by (simp add: connect_return_live(3))
  show "trace_tcp_v4_connect_return k' (trace_tcp_v4_connect_return k s) = trace_tcp_v4_connect_return k s"
    if "tid_of k' = tid_of k"
    using gone that by (simp add: connect_return_absent)
next
  assume a: "hash_lookup (madvise_hash ms) (ucast (cur_pid_tgid m)) = Some d \<and> (ucast (regs_rc m) :: s32) = 0"
  then have eq: "madvise_bpf_kretprobe__do_madvise m ms =
      \<lparr>madvise_hash = hash_delete (madvise_hash ms) (ucast (cur_pid_tgid m)),
       madvise_output = madvise_output ms @ [d]\<rparr>"
    by (simp add: madvise_bpf_kretprobe__do_madvise_def Let_def)
  show "madvise_output (madvise_bpf_kretprobe__do_madvise m ms) = madvise_output ms @ [d]"
    by (simp add: eq)
  show gone: "hash_lookup (madvise_hash (madvise_bpf_kretprobe__do_madvise m ms)) (ucast (cur_pid_tgid m)) = None"
    by (simp add: eq hash_lookup_delete)
  show "madvise_bpf_kretprobe__do_madvise m' (madvise_bpf_kretprobe__do_madvise m ms)
        = madvise_bpf_kretprobe__do_madvise m ms"
    if "cur_pid_tgid m' = cur_pid_tgid m"
    using gone that by (simp add: madvise_bpf_return_absent)
qed

lemmas zswap_eval =
  zswap_demo_def zswap_init_def trace_zswap_store_entry_def trace_zswap_store_return_def
  IS_ERR_def hash_defs ctx_of_def Let_def

lemmas madvise_eval =
  madvise_begun_def madvise_init_def kprobe__do_madvise_def kretprobe__do_madvise_def
  madvise_bpf_kretprobe__do_madvise_def madvise_args0_def madvise_data0_def
  MADVISE_HASH_SIZE_def hash_defs ctx_of_def Let_def

text \<open>
  The zswap store probe with a live record and an error pointer in the return register:
  nothing is submitted and the record stays in \<^verbatim>\<open>stores\<close>.
\<close>

theorem exit_error_pointer_keeps_record:
  "hash_lookup (stores zswap_demo) (cur_pid_tgid (ctx_of 0x2A00000007 250 (- 12))) = Some 100 \<and>
   zswap_store_events (trace_zswap_store_return (ctx_of 0x2A00000007 250 (- 12)) zswap_demo)
     = zswap_store_events zswap_demo \<and>
   hash_lookup (stores (trace_zswap_store_return (ctx_of 0x2A00000007 250 (- 12)) zswap_demo))
     (cur_pid_tgid (ctx_of 0x2A00000007 250 (- 12))) = Some 100"
  by (simp add: zswap_eval)

theorem exit_emits_and_removes_witness:
  "hash_lookup (stores zswap_demo) (cur_pid_tgid (ctx_of 0x2A00000007 250 1)) = Some 100 \<and>
   \<not> IS_ERR (regs_rc (ctx_of 0x2A00000007 250 1)) \<and>
   map end_ts (zswap_store_events (trace_zswap_store_return (ctx_of 0x2A00000007 250 1) zswap_demo)) = [250] \<and>
   hash_lookup (stores (trace_zswap_store_return (ctx_of 0x2A00000007 250 1) zswap_demo))
     (cur_pid_tgid (ctx_of 0x2A00000007 250 1)) = None \<and>
   hash_lookup (connect_tracking connect_begun) (tid_of (ctx_of 0x2A00000007 250 0)) \<noteq> None \<and>
   hash_lookup (connect_start_times connect_begun) (tid_of (ctx_of 0x2A00000007 250 0)) = Some 100 \<and>
   latency_ns (last (connect_events (trace_tcp_v4_connect_return (ctx_of 0x2A00000007 250 0) connect_begun)))
     = 150 \<and>
   hash_lookup
     (connect_tracking (trace_tcp_v4_connect_return (ctx_of 0x2A00000007 250 0) connect_begun))
     (tid_of (ctx_of 0x2A00000007 250 0)) = None \<and>
   trace_tcp_v4_connect_return (ctx_of 0x2A00000007 260 0)
     (trace_tcp_v4_connect_return (ctx_of 0x2A00000007 250 0) connect_begun)
     = trace_tcp_v4_connect_return (ctx_of 0x2A00000007 250 0) connect_begun \<and>
   hash_lookup (madvise_hash madvise_begun) (ucast (cur_pid_tgid (ctx_of 0x2A00000007 250 0)))
     = Some madvise_data0 \<and>
   madvise_output (madvise_bpf_kretprobe__do_madvise (ctx_of 0x2A00000007 250 0) madvise_begun)
     = [madvise_data0]"
proof -
  let ?z = "ctx_of 0x2A00000007 250 1" and ?c = "ctx_of 0x2A00000007 250 0"
    and ?c' = "ctx_of 0x2A00000007 260 0"
  have z1: "hash_lookup (stores zswap_demo) (cur_pid_tgid ?z) = Some 100"
    by (simp add: zswap_eval)
  have z2: "\<not> IS_ERR (regs_rc ?z)"
    by (simp add: IS_ERR_def ctx_of_def word_le_def)
  have z3: "zswap_store_events zswap_demo = []"
    by (simp add: zswap_eval)
  obtain ev where c1: "hash_lookup (connect_tracking connect_begun) (tid_of ?c) = Some ev"
    by (simp add: connect_begun_def connect_eval)
  have c2: "hash_lookup (connect_start_times connect_begun) (tid_of ?c) = Some 100"
    by (simp add: connect_begun_def connect_eval)
  have c3: "tid_of ?c' = tid_of ?c" "ktime_ns ?c = 250"
    by (simp_all add: tid_of_def ctx_of_def)
  have m1: "hash_lookup (madvise_hash madvise_begun) (ucast (cur_pid_tgid ?c)) = Some madvise_data0"
    by (simp add: madvise_eval)
  have m2: "(ucast (regs_rc ?c) :: s32) = 0" "madvise_output madvise_begun = []"
    by (simp_all add: madvise_eval)
  note inst = exit_emits_and_removes [of zswap_demo "?z" "100" "?z" connect_begun "?c" ev "?c'"
      madvise_begun "?c" madvise_data0 "?c"]
  from inst z1 z2 z3 have zs:
    "map end_ts (zswap_store_events (trace_zswap_store_return ?z zswap_demo)) = [250]"
    "hash_lookup (stores (trace_zswap_store_return ?z zswap_demo)) (cur_pid_tgid ?z) = None"
    by (simp_all add: ctx_of_def)
  from inst c1 c2 obtain e where
    e: "connect_events (trace_tcp_v4_connect_return ?c connect_begun) = connect_events connect_begun @ [e]"
      "latency_ns e = ktime_ns ?c - 100"
    by auto
  have cl: "latency_ns (last (connect_events (trace_tcp_v4_connect_return ?c connect_begun))) = 150"
    using e c3 by simp
  from inst c1 c2 c3 have cs:
    "hash_lookup (connect_tracking (trace_tcp_v4_connect_return ?c connect_begun)) (tid_of ?c) = None"
    "trace_tcp_v4_connect_return ?c' (trace_tcp_v4_connect_return ?c connect_begun)
       = trace_tcp_v4_connect_return ?c connect_begun"
    by blast+
  from inst m1 m2 have ms:
    "madvise_output (madvise_bpf_kretprobe__do_madvise ?c madvise_begun) = [madvise_data0]"
    by simp
  show ?thesis
    using z1 z2 zs c1 c2 cl cs m1 ms by simp
qed

section \<open>A second entry for the same key\<close>





section \<open>Records with a latency and matched returns\<close>

lemma started_before_mono: "started_before s T \<Longrightarrow> T' \<subseteq> T \<Longrightarrow> started_before s T'"
  by (auto simp: started_before_def)

lemma entry_latency_records:
  "latency_records (connect_events (trace_tcp_v4_connect c a s)) = latency_records (connect_events s)"
  by (simp add: trace_tcp_v4_connect_def latency_records_def Let_def)

lemma entry_started_before:
  assumes "started_before s T" and "\<forall>t \<in> T. ktime_ns c < t"
  shows "started_before (trace_tcp_v4_connect c a s) T"
proof -
  from assms(1) have dom: "fmdom (connect_start_times s) = fmdom (connect_tracking s)"
    by (simp add: started_before_def)
  then have look: "fmlookup (connect_start_times s) (tid_of c) = None
                   \<longleftrightarrow> fmlookup (connect_tracking s) (tid_of c) = None"
    by (metis fmdom_notD fmdom_notI)
  show ?thesis
    using assms dom look
    by (auto simp: started_before_def trace_tcp_v4_connect_def Let_def hash_update_def
        hash_entries_def split: if_splits)
qed

lemma return_matched:
  assumes sb: "started_before s (insert (ktime_ns c) T)"
    and m: "hash_lookup (connect_tracking s) (tid_of c) \<noteq> None"
  shows "latency_records (connect_events (trace_tcp_v4_connect_return c s))
           = Suc (latency_records (connect_events s))"
    and "started_before (trace_tcp_v4_connect_return c s) T"
proof -
  from m obtain ev where ev: "fmlookup (connect_tracking s) (tid_of c) = Some ev"
    by (auto simp: hash_lookup_def)
  from sb have dom: "fmdom (connect_start_times s) = fmdom (connect_tracking s)"
    by (simp add: started_before_def)
  from ev have "tid_of c |\<in>| fmdom (connect_tracking s)" by (rule fmdomI)
  with dom have "tid_of c |\<in>| fmdom (connect_start_times s)" by simp
  then obtain st where st: "fmlookup (connect_start_times s) (tid_of c) = Some st"
    by (auto simp: fmlookup_dom_iff)
  with sb have "st < ktime_ns c" by (auto simp: started_before_def)
  then have nz: "ktime_ns c - st \<noteq> 0" by auto
  from connect_return_live(1) [of s c ev] ev st nz
  show "latency_records (connect_events (trace_tcp_v4_connect_return c s))
           = Suc (latency_records (connect_events s))"
    by (auto simp: latency_records_def hash_lookup_def)
  show "started_before (trace_tcp_v4_connect_return c s) T"
    using sb ev st
    by (auto simp: started_before_def trace_tcp_v4_connect_return_def hash_lookup_def
        hash_delete_def Let_def split: if_splits)
qed

lemma latency_records_run_from:
  assumes "list_all (\<lambda>ob. connect_entry_or_exit (fst ob)) obs"
    and "sorted_wrt (<) (map (\<lambda>ob. ktime_ns (snd ob)) obs)"
    and "started_before s (set (map (\<lambda>ob. ktime_ns (snd ob)) obs))"
  shows "latency_records (connect_events (connect_run_from s obs))
           = latency_records (connect_events s) + matched_exits s obs"
  using assms
proof (induction obs arbitrary: s)
  case Nil
  then show ?case by (simp add: connect_run_from_def)
next
  case (Cons ob obs)
  obtain p c where ob: "ob = (p, c)" by (cases ob)
  let ?T = "set (map (\<lambda>ob. ktime_ns (snd ob)) obs)"
  from Cons.prems(1) have ee: "connect_entry_or_exit p"
    and rest: "list_all (\<lambda>ob. connect_entry_or_exit (fst ob)) obs"
    by (simp_all add: ob)
  from Cons.prems(2) have later: "\<forall>t \<in> ?T. ktime_ns c < t"
    and srt: "sorted_wrt (<) (map (\<lambda>ob. ktime_ns (snd ob)) obs)"
    by (auto simp: ob)
  from Cons.prems(3) have sb: "started_before s (insert (ktime_ns c) ?T)"
    by (simp add: ob)
  have run: "\<And>q. connect_run_from s ((q, c) # obs) = connect_run_from (connect_fire s (q, c)) obs"
    by (simp add: connect_run_from_def)
  show ?case
  proof (cases p)
    case (TCP_V4_CONNECT a)
    have "started_before (trace_tcp_v4_connect c a s) ?T"
      by (rule entry_started_before [OF started_before_mono [OF sb] later]) auto
    from Cons.IH [OF rest srt this] show ?thesis
      by (simp add: run ob TCP_V4_CONNECT entry_latency_records)
  next
    case TCP_V4_CONNECT_RETURN
    show ?thesis
    proof (cases "hash_lookup (connect_tracking s) (tid_of c) = None")
      case True
      have "started_before s ?T" by (rule started_before_mono [OF sb]) auto
      from Cons.IH [OF rest srt this] True show ?thesis
        by (simp add: run ob TCP_V4_CONNECT_RETURN connect_return_absent)
    next
      case False
      from Cons.IH [OF rest srt return_matched(2) [OF sb False]] return_matched(1) [OF sb False] False
      show ?thesis
        by (simp add: run ob TCP_V4_CONNECT_RETURN)
    qed
  qed (use ee in simp_all)
qed

text \<open>
  C1, as the code has it. For every sequence of entry and return observations of the
  connect path whose clock readings strictly increase, starting from empty tables, the
  number of submitted records with a \<^verbatim>\<open>latency_ns\<close> other than zero equals the number
  of return observations that found a record of their thread. Keys may be reused.
\<close>

theorem latency_records_match_exits:
  assumes "entry_exit_only obs" and "sorted_wrt (<) (clock_readings obs)"
  shows "latency_records (connect_events (connect_run obs)) = matched_exits connect_init obs"
proof -
  have a: "list_all (\<lambda>ob. connect_entry_or_exit (fst ob)) obs"
    using assms(1) by (simp add: entry_exit_only_def comp_def)
  have b: "sorted_wrt (<) (map (\<lambda>ob. ktime_ns (snd ob)) obs)"
    using assms(2) by (simp add: clock_readings_def comp_def)
  have "started_before connect_init (set (map (\<lambda>ob. ktime_ns (snd ob)) obs))"
    by (simp add: started_before_def connect_init_def)
  from latency_records_run_from [OF a b this] show ?thesis
    by (simp add: connect_run_def connect_init_def latency_records_def)
qed

theorem latency_records_match_exits_witness:
  "entry_exit_only unique_pairs \<and>
   sorted_wrt (<) (clock_readings unique_pairs) \<and>
   latency_records (connect_events (connect_run unique_pairs)) = 2 \<and>
   matched_exits connect_init unique_pairs = 2"
proof -
  have h1: "entry_exit_only unique_pairs"
    by (simp add: unique_pairs_def entry_exit_only_def)
  have h2: "sorted_wrt (<) (clock_readings unique_pairs)"
    by (simp add: unique_pairs_def clock_readings_def ctx_of_def)
  have "matched_exits connect_init unique_pairs = 2"
    by (simp add: unique_pairs_def connect_eval)
  with h1 h2 latency_records_match_exits [OF h1 h2] show ?thesis by simp
qed

text \<open>
  Thread 7 enters and returns at the same clock reading: the return finds the record
  and submits it with \<^verbatim>\<open>latency_ns = 0\<close>, the value the entry record carries too.
\<close>

theorem latency_records_miss_same_tick_exit:
  "entry_exit_only same_tick \<and>
   matched_exits connect_init same_tick = 1 \<and>
   latency_records (connect_events (connect_run same_tick)) = 0 \<and>
   latency_records (connect_events (connect_run same_tick)) \<noteq> matched_exits connect_init same_tick"
  by (simp add: same_tick_def entry_exit_only_def latency_records_def connect_eval)

section \<open>The return probe of the two-table madvise program\<close>

text \<open>
  Because of the \<^verbatim>\<open>return 0\<close> after the brace-less \<^verbatim>\<open>if\<close>, this probe never
  submits a record, and after a successful call it leaves the entry record in the table.
\<close>

lemma two_table_madvise_return_never_submits:
  "madvise_output (kretprobe__do_madvise c s) = madvise_output s"
  by (simp add: kretprobe__do_madvise_def Let_def)

lemma two_table_madvise_return_keeps_record:
  "(ucast (regs_rc c) :: s32) = 0 \<Longrightarrow> kretprobe__do_madvise c s = s"
  by (simp add: kretprobe__do_madvise_def Let_def)

end
